theory Spec2Isabelle
  imports Complex_Main "HOL-Library.Multiset" "HOL-Library.Product_Lexorder"
begin

section \<open>Common conventions\<close>

text \<open>
  The development embeds the result-reduction, scoring and geometry routines of
  \<^verbatim>\<open>pyxem/utils/indexation_utils.py\<close> and \<^verbatim>\<open>pyxem/utils/vectors.py\<close>.

  Numbers: in the result reductions and the geometry the Python and NumPy floats of
  the source are idealised as the reals (\<^typ>\<open>real\<close>); rounding is outside the model
  there.  The correlation scores are modelled as doubles, with the rounding as a
  parameter.  What floats do where the reals have no value is written out: a division
  by zero, an empty reduction or an index out of range is a branch of the model that
  returns an error value, never a HOL default.
\<close>

datatype py_error =
    IndexError
  | ValueError
  | ZeroDivisionError
  | AttributeError
  | UnboundLocalError

text \<open>
  \<^const>\<open>ZeroDivisionError\<close> stands for a division whose divisor is zero: Python
  numbers raise it, NumPy scalars yield \<open>inf\<close> or \<open>nan\<close> with a warning; in both cases
  no real number comes out.
\<close>

definition py_div :: "real \<Rightarrow> real \<Rightarrow> py_error + real" where
  "py_div a b = (if b = 0 then Inl ZeroDivisionError else Inr (a / b))"

definition bind_err :: "'e + 'a \<Rightarrow> ('a \<Rightarrow> 'e + 'b) \<Rightarrow> 'e + 'b" where
  "bind_err m f = (case m of Inl e \<Rightarrow> Inl e | Inr v \<Rightarrow> f v)"

text \<open>Python sequence indexing with a non-negative index.\<close>

definition py_get :: "'a list \<Rightarrow> nat \<Rightarrow> py_error + 'a" where
  "py_get xs i = (if i < length xs then Inr (xs ! i) else Inl IndexError)"

text \<open>\<^verbatim>\<open>np.argmax\<close>: the index of the first occurrence of the maximum; an empty
  array raises \<^verbatim>\<open>ValueError\<close>.\<close>

fun argmax_scan :: "nat \<Rightarrow> real \<Rightarrow> nat \<Rightarrow> real list \<Rightarrow> nat" where
  "argmax_scan bi bv i [] = bi"
| "argmax_scan bi bv i (x # xs) =
     (if bv < x then argmax_scan i x (Suc i) xs else argmax_scan bi bv (Suc i) xs)"

definition np_argmax :: "real list \<Rightarrow> py_error + nat" where
  "np_argmax xs = (case xs of [] \<Rightarrow> Inl ValueError | x # ys \<Rightarrow> Inr (argmax_scan 0 x 1 ys))"

text \<open>\<^verbatim>\<open>np.max\<close>: an empty array raises \<^verbatim>\<open>ValueError\<close>.\<close>

fun max_scan :: "real \<Rightarrow> real list \<Rightarrow> real" where
  "max_scan m [] = m"
| "max_scan m (x # xs) = max_scan (if m < x then x else m) xs"

definition np_max :: "real list \<Rightarrow> py_error + real" where
  "np_max xs = (case xs of [] \<Rightarrow> Inl ValueError | x # ys \<Rightarrow> Inr (max_scan x ys))"

text \<open>\<^verbatim>\<open>np.partition(a, -2)[-2]\<close>: the element that a full ascending sort puts at the
  last position but one; \<^verbatim>\<open>kth = -2\<close> is out of bounds for fewer than two elements
  (\<^verbatim>\<open>ValueError\<close>).\<close>

definition np_partition_second_last :: "real list \<Rightarrow> py_error + real" where
  "np_partition_second_last xs =
     (if length xs < 2 then Inl ValueError else Inr (sort xs ! (length xs - 2)))"

section \<open>Result reduction for template matching\<close>

text \<open>
  A row of \<^verbatim>\<open>z_matches\<close> is \<^verbatim>\<open>[phase, [z, x, z], correlation]\<close>; the orientation is
  only copied, so its type is left open.  The result is
  \<^verbatim>\<open>[phase, orientation, dict(metrics)]\<close>; the dictionary is kept as the list of its
  items in insertion order.
\<close>

record 'o template_match =
  tm_phase :: nat
  tm_orientation :: 'o
  tm_correlation :: real

record 'o crystal_result =
  cr_phase :: nat
  cr_orientation :: 'o
  cr_metrics :: "(string \<times> real) list"

text \<open>The expression \<^verbatim>\<open>100 * (1 - a / b)\<close> of both reductions.\<close>

definition reliability :: "real \<Rightarrow> real \<Rightarrow> py_error + real" where
  "reliability a b = bind_err (py_div a b) (\<lambda>q. Inr (100 * (1 - q)))"

definition crystal_single_phase :: "'o template_match list \<Rightarrow> py_error + 'o crystal_result" where
  "crystal_single_phase z =
     bind_err (py_get z 0) (\<lambda>r0.
     bind_err (if 0 < tm_correlation r0
               then bind_err (py_get z 1) (\<lambda>r1.
                      reliability (tm_correlation r1) (tm_correlation r0))
               else Inr 100) (\<lambda>orel.
     Inr \<lparr>cr_phase = tm_phase r0, cr_orientation = tm_orientation r0,
          cr_metrics = [(''correlation'', tm_correlation r0),
                        (''orientation_reliability'', orel)]\<rparr>))"

definition crystal_multi_phase :: "'o template_match list \<Rightarrow> py_error + 'o crystal_result" where
  "crystal_multi_phase z =
     bind_err (np_argmax (map tm_correlation z)) (\<lambda>index_best_match.
     let best = z ! index_best_match;
         same = filter (\<lambda>r. tm_phase r = tm_phase best) z;
         other = filter (\<lambda>r. tm_phase r \<noteq> tm_phase best) z
     in
     bind_err (np_partition_second_last (map tm_correlation same)) (\<lambda>second_orientation.
     bind_err (np_max (map tm_correlation other)) (\<lambda>second_phase.
     bind_err (reliability second_orientation (tm_correlation best)) (\<lambda>orel.
     bind_err (reliability second_phase (tm_correlation best)) (\<lambda>prel.
     Inr \<lparr>cr_phase = tm_phase best, cr_orientation = tm_orientation best,
          cr_metrics = [(''correlation'', tm_correlation best),
                        (''orientation_reliability'', orel),
                        (''phase_reliability'', prel)]\<rparr>)))))"

text \<open>\<^verbatim>\<open>np.unique(z_matches[:, 0]).shape[0] == 1\<close> selects the single-phase branch.\<close>

definition n_unique_phases :: "'o template_match list \<Rightarrow> nat" where
  "n_unique_phases z = length (remdups (map tm_phase z))"

definition crystal_from_template_matching ::
  "'o template_match list \<Rightarrow> py_error + 'o crystal_result" where
  "crystal_from_template_matching z =
     (if n_unique_phases z = 1 then crystal_single_phase z else crystal_multi_phase z)"

text \<open>
  The words of the specification.  The second-best score of a list is its largest score
  once one occurrence of the best has been set aside; the best row is the first row
  that attains the global maximum.
\<close>

definition second_best :: "real list \<Rightarrow> real" where
  "second_best xs = Max (set (remove1 (Max (set xs)) xs))"

definition is_first_global_max :: "'o template_match list \<Rightarrow> nat \<Rightarrow> bool" where
  "is_first_global_max z i \<longleftrightarrow>
     i < length z \<and>
     (\<forall>j<length z. tm_correlation (z ! j) \<le> tm_correlation (z ! i)) \<and>
     (\<forall>j<i. tm_correlation (z ! j) < tm_correlation (z ! i))"

section \<open>Result reduction for vector matching\<close>

type_synonym vec3 = "real \<times> real \<times> real"

text \<open>A 3x3 matrix is the triple of its rows.\<close>

type_synonym mat3 = "vec3 \<times> vec3 \<times> vec3"

text \<open>The named tuple \<^verbatim>\<open>OrientationResult\<close>.\<close>

record OrientationResult =
  phase_index :: nat
  rotation_matrix :: mat3
  match_rate :: real
  error_hkls :: "vec3 list"
  total_error :: real
  scale :: real
  center_x :: real
  center_y :: real

text \<open>
  \<^verbatim>\<open>get_nth_best_solution\<close> in mode \<^verbatim>\<open>"vector"\<close>, for a flat pool of solutions:
  \<^verbatim>\<open>sorted(pool, key=attrgetter(key), reverse=descending)[rank]\<close>.  Python's sort is
  stable, also under \<^verbatim>\<open>reverse=True\<close>.  Reading \<^verbatim>\<open>single_match_result[0]\<close> of an empty
  pool raises \<^verbatim>\<open>IndexError\<close> before the \<^verbatim>\<open>AttributeError\<close> fallback applies.
\<close>

definition py_sorted :: "('a \<Rightarrow> real) \<Rightarrow> bool \<Rightarrow> 'a list \<Rightarrow> 'a list" where
  "py_sorted key reverse xs =
     (if reverse then rev (sort_key key (rev xs)) else sort_key key xs)"

definition get_nth_best_solution ::
  "'a list \<Rightarrow> nat \<Rightarrow> ('a \<Rightarrow> real) \<Rightarrow> bool \<Rightarrow> py_error + 'a" where
  "get_nth_best_solution single_match_result rank key descending =
     (if single_match_result = [] then Inl IndexError
      else py_get (py_sorted key descending single_match_result) rank)"

text \<open>
  The metrics dictionary of vector matching holds scalars and the array of hkl errors.
\<close>

datatype metric_value = Scalar real | HklErrors "vec3 list"

record 'o vector_crystal_result =
  vr_phase :: nat
  vr_orientation :: 'o
  vr_metrics :: "(string \<times> metric_value) list"

text \<open>
  \<^verbatim>\<open>crystal_from_vector_matching\<close> for a flat array of solutions.  The conversion
  \<^verbatim>\<open>np.rad2deg(mat2euler(R, "rzxz"))\<close> belongs to an external library and is the
  parameter \<open>euler_deg\<close>.  A flat array of shape \<^verbatim>\<open>(1,)\<close> is unwrapped to its only
  element by the first statement, and sorting that element raises \<^verbatim>\<open>AttributeError\<close>.
  \<^verbatim>\<open>x or 1.0\<close> is \<^verbatim>\<open>1.0\<close> exactly when \<^verbatim>\<open>x\<close> is zero.
\<close>

definition crystal_from_vector_matching ::
  "(mat3 \<Rightarrow> 'o) \<Rightarrow> OrientationResult list \<Rightarrow> py_error + 'o vector_crystal_result" where
  "crystal_from_vector_matching euler_deg z_matches =
     (if length z_matches = 1 then Inl AttributeError else
      bind_err (get_nth_best_solution z_matches 0 total_error False) (\<lambda>best_match.
      let metrics0 = [(''match_rate'', Scalar (match_rate best_match)),
                      (''ehkls'', HklErrors (error_hkls best_match)),
                      (''total_error'', Scalar (total_error best_match))];
          other_phase_matches =
            filter (\<lambda>m. phase_index m \<noteq> phase_index best_match) z_matches
      in
      bind_err
        (if other_phase_matches \<noteq> [] then
           bind_err (py_get (py_sorted total_error False other_phase_matches) 0)
             (\<lambda>second_best_phase.
           bind_err (reliability (total_error best_match) (total_error second_best_phase))
             (\<lambda>prel.
           let same_phase_matches =
                 filter (\<lambda>m. phase_index m = phase_index best_match) z_matches
           in
           bind_err (py_get (py_sorted total_error False same_phase_matches) 1)
             (\<lambda>second_match.
           Inr (metrics0 @ [(''phase_reliability'', Scalar prel)], second_match))))
         else
           bind_err (get_nth_best_solution z_matches 1 total_error False)
             (\<lambda>second_match. Inr (metrics0, second_match)))
        (\<lambda>(metrics1, second_match).
      bind_err (reliability (total_error best_match)
                  (if total_error second_match = 0 then 1 else total_error second_match))
        (\<lambda>orel.
      Inr \<lparr>vr_phase = phase_index best_match,
           vr_orientation = euler_deg (rotation_matrix best_match),
           vr_metrics = metrics1 @ [(''orientation_reliability'', Scalar orel)]\<rparr>))))"



text \<open>A solution row for examples: identity rotation, no hkl errors.\<close>

definition vm_row :: "nat \<Rightarrow> real \<Rightarrow> real \<Rightarrow> OrientationResult" where
  "vm_row p mr te =
     \<lparr>phase_index = p, rotation_matrix = ((1, 0, 0), (0, 1, 0), (0, 0, 1)), match_rate = mr,
      error_hkls = [], total_error = te, scale = 1, center_x = 0, center_y = 0\<rparr>"

section \<open>NumPy doubles\<close>

text \<open>
  The correlation scores are computed in IEEE doubles, and what the source tests
  (\<^verbatim>\<open>match_denominator == 0\<close>) and returns depends on the rounding.  A double is a
  finite real, an infinity or \<open>nan\<close>; the sign of a zero is not kept.
\<close>

datatype np_float = Finite real | PosInf | NegInf | NaN

text \<open>
  The rounding is a parameter: \<open>fl\<close> takes an exact result to the double that stands for
  it (underflow included), and \<open>fmax\<close> is the largest finite double, beyond which the
  rounded result overflows to an infinity.
\<close>

record rounding =
  fl :: "real \<Rightarrow> real"
  fmax :: real

definition f_round :: "'a rounding_scheme \<Rightarrow> real \<Rightarrow> np_float" where
  "f_round R x =
     (if fmax R < fl R x then PosInf
      else if fl R x < - fmax R then NegInf
      else Finite (fl R x))"

fun f_neg :: "np_float \<Rightarrow> np_float" where
  "f_neg (Finite x) = Finite (- x)"
| "f_neg PosInf = NegInf"
| "f_neg NegInf = PosInf"
| "f_neg NaN = NaN"

text \<open>
  The arithmetic of doubles: an operation on finite operands is the exact operation
  followed by the rounding; \<open>nan\<close> propagates; \<open>inf - inf\<close>, \<open>0 * inf\<close>, \<open>inf / inf\<close> and
  \<open>0 / 0\<close> are \<open>nan\<close>; a non-zero number divided by zero is an infinity.  The zero
  divisors of this development are counts and norms, of positive sign.
\<close>

fun f_add :: "'a rounding_scheme \<Rightarrow> np_float \<Rightarrow> np_float \<Rightarrow> np_float" where
  "f_add R NaN b = NaN"
| "f_add R a NaN = NaN"
| "f_add R (Finite x) (Finite y) = f_round R (x + y)"
| "f_add R PosInf NegInf = NaN"
| "f_add R NegInf PosInf = NaN"
| "f_add R PosInf b = PosInf"
| "f_add R a PosInf = PosInf"
| "f_add R NegInf b = NegInf"
| "f_add R a NegInf = NegInf"

definition f_sub :: "'a rounding_scheme \<Rightarrow> np_float \<Rightarrow> np_float \<Rightarrow> np_float" where
  "f_sub R a b = f_add R a (f_neg b)"

fun f_mul :: "'a rounding_scheme \<Rightarrow> np_float \<Rightarrow> np_float \<Rightarrow> np_float" where
  "f_mul R NaN b = NaN"
| "f_mul R a NaN = NaN"
| "f_mul R (Finite x) (Finite y) = f_round R (x * y)"
| "f_mul R (Finite x) b = (if x = 0 then NaN else if 0 < x then b else f_neg b)"
| "f_mul R a (Finite y) = (if y = 0 then NaN else if 0 < y then a else f_neg a)"
| "f_mul R PosInf b = b"
| "f_mul R NegInf b = f_neg b"

fun f_div :: "'a rounding_scheme \<Rightarrow> np_float \<Rightarrow> np_float \<Rightarrow> np_float" where
  "f_div R NaN b = NaN"
| "f_div R a NaN = NaN"
| "f_div R (Finite x) (Finite y) =
     (if y \<noteq> 0 then f_round R (x / y)
      else if 0 < x then PosInf else if x < 0 then NegInf else NaN)"
| "f_div R (Finite x) b = Finite 0"
| "f_div R a (Finite y) = (if 0 \<le> y then a else f_neg a)"
| "f_div R a b = NaN"

fun f_sqrt :: "'a rounding_scheme \<Rightarrow> np_float \<Rightarrow> np_float" where
  "f_sqrt R (Finite x) = (if x < 0 then NaN else f_round R (sqrt x))"
| "f_sqrt R PosInf = PosInf"
| "f_sqrt R NegInf = NaN"
| "f_sqrt R NaN = NaN"

fun is_finite :: "np_float \<Rightarrow> bool" where
  "is_finite (Finite x) = True"
| "is_finite a = False"

text \<open>
  The reductions \<^verbatim>\<open>np.sum\<close> and \<^verbatim>\<open>np.linalg.norm\<close> add in an order of NumPy's choosing
  and \<^verbatim>\<open>pow(x, 2)\<close> is the power function of the C library; each is a parameter next to
  the rounding.
\<close>

record float_model = rounding +
  np_sum :: "np_float list \<Rightarrow> np_float"
  np_linalg_norm :: "np_float list \<Rightarrow> np_float"
  pow2 :: "np_float \<Rightarrow> np_float"

text \<open>
  \<^verbatim>\<open>np.average\<close> of a one-dimensional array is its sum divided by its length; for the
  empty array that is \<open>0 / 0\<close>.
\<close>

definition np_average :: "float_model \<Rightarrow> np_float list \<Rightarrow> np_float" where
  "np_average M xs = f_div M (np_sum M xs) (Finite (real (length xs)))"

text \<open>
  \<^verbatim>\<open>np.multiply\<close> on one-dimensional arrays: elementwise on equal lengths, a
  one-element array is broadcast, other shapes raise \<^verbatim>\<open>ValueError\<close>.
\<close>

definition np_multiply ::
  "float_model \<Rightarrow> np_float list \<Rightarrow> np_float list \<Rightarrow> py_error + np_float list" where
  "np_multiply M xs ys =
     (if length xs = length ys then Inr (map (\<lambda>(x, y). f_mul M x y) (zip xs ys))
      else if length xs = 1 then Inr (map (\<lambda>y. f_mul M (hd xs) y) ys)
      else if length ys = 1 then Inr (map (\<lambda>x. f_mul M x (hd ys)) xs)
      else Inl ValueError)"

section \<open>Zero-mean normalised correlation\<close>

text \<open>
  The three quantities of \<^verbatim>\<open>zero_mean_normalized_correlation\<close>, each operation in the
  order of the source.  The pixel counts are Python integers and enter the doubles
  exactly.
\<close>

definition average_pattern_intensity :: "float_model \<Rightarrow> nat \<Rightarrow> np_float list \<Rightarrow> np_float" where
  "average_pattern_intensity M nb_pixels int_local =
     f_div M (f_mul M (Finite (real (length int_local))) (np_average M int_local))
       (Finite (real nb_pixels))"

definition match_numerator ::
  "float_model \<Rightarrow> nat \<Rightarrow> np_float \<Rightarrow> np_float list \<Rightarrow> np_float \<Rightarrow> np_float" where
  "match_numerator M nb_pixels average_image_intensity products api =
     f_sub M (np_sum M products)
       (f_mul M (f_mul M (Finite (real nb_pixels)) average_image_intensity) api)"

definition match_denominator ::
  "float_model \<Rightarrow> nat \<Rightarrow> np_float \<Rightarrow> np_float list \<Rightarrow> np_float \<Rightarrow> np_float" where
  "match_denominator M nb_pixels image_std int_local api =
     f_mul M image_std
       (f_add M (np_linalg_norm M (map (\<lambda>x. f_sub M x api) int_local))
          (f_mul M (Finite (real nb_pixels - real (length int_local))) (pow2 M api)))"

text \<open>
  The function itself.  Only \<^verbatim>\<open>np.multiply\<close> can raise; the guard compares the computed
  denominator with zero and returns the integer 0.
\<close>

definition zero_mean_normalized_correlation ::
  "float_model \<Rightarrow> nat \<Rightarrow> np_float \<Rightarrow> np_float \<Rightarrow> np_float list \<Rightarrow> np_float list \<Rightarrow>
   py_error + np_float" where
  "zero_mean_normalized_correlation M nb_pixels image_std average_image_intensity
       image_intensities int_local =
     (let api = average_pattern_intensity M nb_pixels int_local
      in bind_err (np_multiply M image_intensities int_local) (\<lambda>products.
           let num = match_numerator M nb_pixels average_image_intensity products api;
               den = match_denominator M nb_pixels image_std int_local api
           in if den = Finite 0 then Inr (Finite 0) else Inr (f_div M num den)))"

text \<open>\<^verbatim>\<open>fast_correlation\<close>: the dot product divided by the pattern norm.\<close>

definition fast_correlation ::
  "float_model \<Rightarrow> np_float list \<Rightarrow> np_float list \<Rightarrow> np_float \<Rightarrow> py_error + np_float" where
  "fast_correlation M image_intensities int_local pn_local =
     bind_err (np_multiply M image_intensities int_local) (\<lambda>products.
       Inr (f_div M (np_sum M products) pn_local))"

text \<open>
  For examples: doubles whose values need no rounding.  The rounding is the identity,
  the sum adds from the left and the norm is the root of the sum of squares; on
  inputs whose intermediate values are small integers every IEEE evaluation agrees
  with it.
\<close>

definition exact_rounding :: rounding where
  "exact_rounding = \<lparr>fl = (\<lambda>x. x), fmax = 2 ^ 1024 - 2 ^ 971\<rparr>"

definition exact_model :: float_model where
  "exact_model =
     \<lparr>fl = (\<lambda>x. x), fmax = 2 ^ 1024 - 2 ^ 971,
      np_sum = foldl (f_add exact_rounding) (Finite 0),
      np_linalg_norm =
        (\<lambda>xs. f_sqrt exact_rounding
                 (foldl (f_add exact_rounding) (Finite 0) (map (\<lambda>x. f_mul exact_rounding x x) xs))),
      pow2 = (\<lambda>x. f_mul exact_rounding x x)\<rparr>"

section \<open>The coarse-filter fraction of the polar matchers\<close>

text \<open>
  \<^verbatim>\<open>get_n_best_matches\<close> and \<^verbatim>\<open>correlate_library_to_pattern_partial\<close> first call
  \<^verbatim>\<open>_prepare_image_and_templates\<close>, then derive \<^verbatim>\<open>fraction\<close> from \<^verbatim>\<open>keep\<close> by the same
  \<^verbatim>\<open>if\<close>/\<^verbatim>\<open>elif\<close>/\<^verbatim>\<open>else\<close>, then integrate the templates and match.  The conditional reads:
  \<^verbatim>\<open>
  if keep >= 1.:
      fraction = max((theta.shape[0] - keep) / theta.shape[0], 0.)
  elif 0. < keep <= 1.:
      fraction = 1. - keep
  else:
      raise ValueError("keep should be an integer >1 or a float [0-1]")
  \<close>
  Here \<open>n\<close> is \<^verbatim>\<open>theta.shape[0]\<close>, the number of templates.
\<close>

definition keep_fraction :: "real \<Rightarrow> nat \<Rightarrow> py_error + real" where
  "keep_fraction keep n =
     (if 1 \<le> keep then
        bind_err (py_div (real n - keep) (real n)) (\<lambda>q. Inr (max q 0))
      else if 0 < keep \<and> keep \<le> 1 then Inr (1 - keep)
      else Inl ValueError)"

text \<open>
  The prepared data: the normalised polar image and, per template, the radial and
  azimuthal pixel coordinates and the normalised intensities of its reflections.
\<close>

record prepared =
  polar_image :: "real list list"
  r_templates :: "int list list"
  theta_templates :: "int list list"
  intensities_templates :: "real list list"

text \<open>
  The helper calls a matcher makes are recorded in order.  The preparation
  (\<^verbatim>\<open>_prepare_image_and_templates\<close>) and the work after the conditional (template
  integration by \<^verbatim>\<open>_get_integrated_polar_templates\<close>, the coarse and fine matching
  kernels and the unpacking of their answer) are parameters: \<open>prepare\<close> and \<open>matching\<close>,
  each of which may raise.
\<close>

datatype call = Prepare | Matching

definition two_stage_matcher ::
  "('img \<Rightarrow> 'sims \<Rightarrow> py_error + prepared) \<Rightarrow> (prepared \<Rightarrow> real \<Rightarrow> py_error + 'res) \<Rightarrow>
   'img \<Rightarrow> 'sims \<Rightarrow> real \<Rightarrow> call list \<times> (py_error + 'res)" where
  "two_stage_matcher prepare matching img simulations keep =
     (case prepare img simulations of
        Inl e \<Rightarrow> ([Prepare], Inl e)
      | Inr p \<Rightarrow>
          (case keep_fraction keep (length (theta_templates p)) of
             Inl e \<Rightarrow> ([Prepare], Inl e)
           | Inr fraction \<Rightarrow> ([Prepare, Matching], matching p fraction)))"

text \<open>
  \<^verbatim>\<open>get_n_best_matches\<close>: the matching is \<^verbatim>\<open>_mixed_matching_lib_to_polar\<close> on the
  integrated templates with \<open>n_best\<close>.
\<close>

definition get_n_best_matches ::
  "('img \<Rightarrow> 'sims \<Rightarrow> py_error + prepared) \<Rightarrow>
   (prepared \<Rightarrow> real \<Rightarrow> nat \<Rightarrow> py_error + 'res) \<Rightarrow>
   'img \<Rightarrow> 'sims \<Rightarrow> nat \<Rightarrow> real \<Rightarrow> call list \<times> (py_error + 'res)" where
  "get_n_best_matches prepare mixed_matching img simulations n_best keep =
     two_stage_matcher prepare (\<lambda>p fraction. mixed_matching p fraction n_best)
       img simulations keep"

text \<open>
  \<^verbatim>\<open>correlate_library_to_pattern_partial\<close>: the matching is the percentile filter on
  the fast correlations followed by the full correlation of the survivors.
\<close>

definition correlate_library_to_pattern_partial ::
  "('img \<Rightarrow> 'sims \<Rightarrow> py_error + prepared) \<Rightarrow>
   (prepared \<Rightarrow> real \<Rightarrow> py_error + 'res) \<Rightarrow>
   'img \<Rightarrow> 'sims \<Rightarrow> real \<Rightarrow> call list \<times> (py_error + 'res)" where
  "correlate_library_to_pattern_partial prepare filtered_matching img simulations keep =
     two_stage_matcher prepare filtered_matching img simulations keep"

section \<open>Geometry: polar coordinates\<close>

text \<open>
  \<^verbatim>\<open>np.arctan2(y, x)\<close> on the reals: the angle in \<open>(-\<pi>, \<pi>]\<close> of the point \<open>(x, y)\<close>, and
  0 at the origin.
\<close>

definition np_arctan2 :: "real \<Rightarrow> real \<Rightarrow> real" where
  "np_arctan2 y x =
     (if 0 < x then arctan (y / x)
      else if x < 0 then (if 0 \<le> y then arctan (y / x) + pi else arctan (y / x) - pi)
      else if 0 < y then pi / 2
      else if y < 0 then - (pi / 2)
      else 0)"

text \<open>
  A row of the array \<^verbatim>\<open>vectors\<close> is the list of its columns.  With the default
  \<^verbatim>\<open>columns = [0, 1]\<close>, \<^verbatim>\<open>vectors_to_polar\<close> writes the norm and the angle of columns 0
  and 1 and copies the columns from 2 on; a row with fewer than two columns has no
  column 1 (\<^verbatim>\<open>IndexError\<close>).  \<^verbatim>\<open>polar_to_cartesian\<close> returns two columns.
\<close>

fun sequence_err :: "('e + 'a) list \<Rightarrow> 'e + 'a list" where
  "sequence_err [] = Inr []"
| "sequence_err (x # xs) =
     (case x of Inl e \<Rightarrow> Inl e
      | Inr v \<Rightarrow> (case sequence_err xs of Inl e \<Rightarrow> Inl e | Inr vs \<Rightarrow> Inr (v # vs)))"

definition vectors_to_polar_row :: "real list \<Rightarrow> py_error + real list" where
  "vectors_to_polar_row v =
     (if length v < 2 then Inl IndexError
      else Inr ([sqrt ((v ! 0)\<^sup>2 + (v ! 1)\<^sup>2), np_arctan2 (v ! 1) (v ! 0)] @ drop 2 v))"

definition vectors_to_polar :: "real list list \<Rightarrow> py_error + real list list" where
  "vectors_to_polar vectors = sequence_err (map vectors_to_polar_row vectors)"

definition polar_to_cartesian_row :: "real list \<Rightarrow> py_error + real list" where
  "polar_to_cartesian_row v =
     (if length v < 2 then Inl IndexError
      else Inr [v ! 0 * cos (v ! 1), v ! 0 * sin (v ! 1)])"

definition polar_to_cartesian :: "real list list \<Rightarrow> py_error + real list list" where
  "polar_to_cartesian vectors = sequence_err (map polar_to_cartesian_row vectors)"

section \<open>Geometry: the rotation between two pairs of vectors\<close>

definition cross3 :: "vec3 \<Rightarrow> vec3 \<Rightarrow> vec3" where
  "cross3 a b =
     (case a of (a1, a2, a3) \<Rightarrow> case b of (b1, b2, b3) \<Rightarrow>
        (a2 * b3 - a3 * b2, a3 * b1 - a1 * b3, a1 * b2 - a2 * b1))"

definition dot3 :: "vec3 \<Rightarrow> vec3 \<Rightarrow> real" where
  "dot3 a b = (case a of (a1, a2, a3) \<Rightarrow> case b of (b1, b2, b3) \<Rightarrow> a1 * b1 + a2 * b2 + a3 * b3)"

definition norm3 :: "vec3 \<Rightarrow> real" where
  "norm3 a = sqrt (dot3 a a)"

definition abs_sum3 :: "vec3 \<Rightarrow> real" where
  "abs_sum3 a = (case a of (a1, a2, a3) \<Rightarrow> \<bar>a1\<bar> + \<bar>a2\<bar> + \<bar>a3\<bar>)"

text \<open>\<^verbatim>\<open>np.isclose(x, 0.0)\<close> with the default tolerances: \<open>|x - 0| \<le> 1e-8 + 1e-5 * |0|\<close>.\<close>

definition isclose_zero :: "real \<Rightarrow> bool" where
  "isclose_zero x \<longleftrightarrow> \<bar>x\<bar> \<le> 1 / 10 ^ 8"

text \<open>\<^verbatim>\<open>normalize_or_zero\<close>, row by row: rows of positive norm are divided by it.\<close>

definition normalize_or_zero :: "vec3 \<Rightarrow> vec3" where
  "normalize_or_zero v =
     (if 0 < norm3 v
      then (case v of (v1, v2, v3) \<Rightarrow> (v1 / norm3 v, v2 / norm3 v, v3 / norm3 v))
      else v)"

text \<open>\<^verbatim>\<open>get_angle_cartesian_vec\<close>, row by row (the shapes agree by construction).\<close>

definition angle_cartesian_row :: "vec3 \<Rightarrow> vec3 \<Rightarrow> real" where
  "angle_cartesian_row a b =
     (let denom = norm3 a * norm3 b
      in if denom \<noteq> 0 then arccos (max (-1) (min 1 (dot3 a b / denom))) else 0)"

text \<open>\<^verbatim>\<open>get_angle_cartesian\<close> for a single pair of vectors.\<close>

definition get_angle_cartesian :: "vec3 \<Rightarrow> vec3 \<Rightarrow> real" where
  "get_angle_cartesian a b =
     (let denom = norm3 a * norm3 b
      in if denom = 0 then 0 else arccos (max (-1) (min 1 (dot3 a b / denom))))"

text \<open>
  \<^verbatim>\<open>axangle2mat(axis, angle, is_normalized=True)\<close> of the library transforms3d: the
  rotation about a unit axis, by Rodrigues' formula as that library writes it.
\<close>

definition axangle2mat :: "vec3 \<Rightarrow> real \<Rightarrow> mat3" where
  "axangle2mat axis angle =
     (case axis of (x, y, z) \<Rightarrow>
        let c = cos angle; s = sin angle; C = 1 - c;
            xs = x * s; ys = y * s; zs = z * s;
            xC = x * C; yC = y * C; zC = z * C;
            xyC = x * yC; yzC = y * zC; zxC = z * xC
        in ((x * xC + c, xyC - zs, zxC + ys),
            (xyC + zs, y * yC + c, yzC - xs),
            (zxC - ys, yzC + xs, z * zC + c)))"

definition identity3 :: mat3 where
  "identity3 = ((1, 0, 0), (0, 1, 0), (0, 0, 1))"

definition matvec3 :: "mat3 \<Rightarrow> vec3 \<Rightarrow> vec3" where
  "matvec3 m v = (case m of (r1, r2, r3) \<Rightarrow> (dot3 r1 v, dot3 r2 v, dot3 r3 v))"

definition column3 :: "mat3 \<Rightarrow> nat \<Rightarrow> vec3" where
  "column3 m j =
     (case m of ((a11, a12, a13), (a21, a22, a23), (a31, a32, a33)) \<Rightarrow>
        if j = 0 then (a11, a21, a31) else if j = 1 then (a12, a22, a32) else (a13, a23, a33))"

definition matmul3 :: "mat3 \<Rightarrow> mat3 \<Rightarrow> mat3" where
  "matmul3 a b =
     (case a of (r1, r2, r3) \<Rightarrow>
        ((dot3 r1 (column3 b 0), dot3 r1 (column3 b 1), dot3 r1 (column3 b 2)),
         (dot3 r2 (column3 b 0), dot3 r2 (column3 b 1), dot3 r2 (column3 b 2)),
         (dot3 r3 (column3 b 0), dot3 r3 (column3 b 1), dot3 r3 (column3 b 2))))"

text \<open>
  The body of \<^verbatim>\<open>get_rotation_matrix_between_vectors\<close> for one row of the to-vectors;
  every array operation of the source acts row by row.  The common axis is computed from
  the to-plane normal before the degenerate normals are replaced.
\<close>

definition rotation_matrix_row :: "vec3 \<Rightarrow> vec3 \<Rightarrow> vec3 \<Rightarrow> vec3 \<Rightarrow> mat3" where
  "rotation_matrix_row from_v1 from_v2 to_v1 to_v2 =
     (let plane_normal_from = cross3 from_v1 from_v2;
          plane_normal_to0 = cross3 to_v1 to_v2;
          plane_common_axes0 = cross3 plane_normal_from plane_normal_to0;
          plane_normal_to1 =
            (if isclose_zero (abs_sum3 plane_normal_to0) then cross3 from_v1 to_v1
             else plane_normal_to0);
          plane_normal_to2 =
            (if isclose_zero (abs_sum3 plane_normal_to1) then cross3 from_v2 to_v2
             else plane_normal_to1);
          plane_normal_to = normalize_or_zero plane_normal_to2;
          plane_common_axes = normalize_or_zero plane_common_axes0;
          common_valid = (\<not> isclose_zero (abs_sum3 plane_common_axes));
          angle = angle_cartesian_row plane_normal_from plane_normal_to;
          R1 = (if common_valid then axangle2mat plane_common_axes angle else identity3);
          rot_from_v1 = matvec3 R1 from_v1;
          rot_from_v2 = matvec3 R1 from_v2;
          angle1 = angle_cartesian_row rot_from_v1 to_v1;
          angle2 = angle_cartesian_row rot_from_v2 to_v2;
          angles = (1 / 2) * (angle1 + angle2);
          neg_angle_mask = (dot3 (cross3 rot_from_v1 to_v1) plane_normal_to < 0);
          angles' = (if neg_angle_mask then - angles else angles);
          R2 = axangle2mat plane_normal_to angles'
      in matmul3 R2 R1)"

text \<open>
  The whole function.  To-arrays of different lengths do not combine
  (\<^verbatim>\<open>ValueError\<close> from \<^verbatim>\<open>np.cross\<close>, or \<^verbatim>\<open>IndexError\<close> from the boolean mask when one of
  them has a single row and is broadcast).  With no row at all \<^verbatim>\<open>R2\<close> is the empty
  one-dimensional array, which \<^verbatim>\<open>np.matmul\<close> refuses (\<^verbatim>\<open>ValueError\<close>).
\<close>

definition get_rotation_matrix_between_vectors ::
  "vec3 \<Rightarrow> vec3 \<Rightarrow> vec3 list \<Rightarrow> vec3 list \<Rightarrow> py_error + mat3 list" where
  "get_rotation_matrix_between_vectors from_v1 from_v2 to_v1 to_v2 =
     (if length to_v1 \<noteq> length to_v2
      then (if length to_v1 = 1 \<or> length to_v2 = 1 then Inl IndexError else Inl ValueError)
      else if to_v1 = [] then Inl ValueError
      else Inr (map (\<lambda>(t1, t2). rotation_matrix_row from_v1 from_v2 t1 t2) (zip to_v1 to_v2)))"

section \<open>Vector matching\<close>

text \<open>
  A phase of the vector library holds the table of hkl pairs (\<^verbatim>\<open>phase["indices"]\<close>) and,
  row for row, the two magnitudes and the angle of each pair
  (\<^verbatim>\<open>phase["measurements"]\<close>).  The reciprocal lattice of its structure belongs to an
  external library; its maps \<^verbatim>\<open>cartesian\<close> and \<^verbatim>\<open>fractional\<close> are fields of the model.
\<close>

record vector_phase =
  vp_indices :: "(vec3 \<times> vec3) list"
  vp_measurements :: "(real \<times> real \<times> real) list"
  lattice_cartesian :: "vec3 \<Rightarrow> vec3"
  lattice_fractional :: "vec3 \<Rightarrow> vec3"

text \<open>
  \<^verbatim>\<open>_choose_peak_ids\<close>: the peaks are ranked by their polar angle and
  \<^verbatim>\<open>n_peaks_to_index\<close> evenly spaced ranks are picked.  The angle comes from
  \<^verbatim>\<open>_cart2polar\<close> of \<^verbatim>\<open>pyxem.utils.expt_utils\<close>, a module that is not embedded here;
  it is the parameter \<open>cart2polar_theta\<close>.  \<^verbatim>\<open>argsort\<close> is taken stable.  The function
  is only called with at least two peaks.

  \<^verbatim>\<open>np.linspace(0, stop, num, dtype=int)\<close> works in doubles: it rounds the step
  \<open>stop / (num - 1)\<close>, rounds each product \<open>i * step\<close> (or, when the step is 0, the
  quotient \<open>i / (num - 1)\<close> and then its product with \<open>stop\<close>), overwrites the last
  entry with \<open>stop\<close> and truncates.  The integers involved are exact in a double; the
  rounding of the quotients and products is \<^const>\<open>fl\<close> of the parameter \<open>R\<close>.
\<close>

definition np_linspace_int :: "'a rounding_scheme \<Rightarrow> nat \<Rightarrow> nat \<Rightarrow> nat list" where
  "np_linspace_int R stop num =
     (if num = 0 then [] else if num = 1 then [0]
      else
        (let step = fl R (real stop / real (num - 1))
         in map (\<lambda>i. if i = num - 1 then stop
                     else nat \<lfloor>if step = 0
                                then fl R (fl R (real i / real (num - 1)) * real stop)
                                else fl R (real i * step)\<rfloor>)
              [0..<num]))"

definition np_argsort :: "real list \<Rightarrow> nat list" where
  "np_argsort xs = sort_key (\<lambda>i. xs ! i) [0..<length xs]"

definition choose_peak_ids ::
  "'a rounding_scheme \<Rightarrow> (real \<Rightarrow> real \<Rightarrow> real) \<Rightarrow> vec3 list \<Rightarrow> nat \<Rightarrow> nat list" where
  "choose_peak_ids R cart2polar_theta peaks n_peaks_to_index =
     (let angles = map (\<lambda>(x, y, z). cart2polar_theta x y) peaks;
          order = np_argsort angles
      in map (\<lambda>j. order ! j) (np_linspace_int R (length angles - 1) n_peaks_to_index))"

text \<open>\<^verbatim>\<open>itertools.combinations(ids, 2)\<close>.\<close>

fun combinations2 :: "'a list \<Rightarrow> ('a \<times> 'a) list" where
  "combinations2 [] = []"
| "combinations2 (x # xs) = map (Pair x) xs @ combinations2 xs"

text \<open>
  The tolerance mask over the rows of the measurement table; the source narrows the mask
  in three steps, each a strict comparison.
\<close>

definition tolerance_mask ::
  "(real \<times> real \<times> real) list \<Rightarrow> real \<Rightarrow> real \<Rightarrow> real \<Rightarrow> real \<Rightarrow> real \<Rightarrow> bool list" where
  "tolerance_mask phase_measurements q1_len q2_len angle mag_tol angle_tol =
     map (\<lambda>(m0, m1, m2).
            \<bar>m0 - q1_len\<bar> < mag_tol \<and> \<bar>m1 - q2_len\<bar> < mag_tol \<and> \<bar>m2 - angle\<bar> < angle_tol)
         phase_measurements"

text \<open>Boolean-mask indexing: the mask must be as long as the array.\<close>

definition select_mask :: "'a list \<Rightarrow> bool list \<Rightarrow> py_error + 'a list" where
  "select_mask xs msk =
     (if length msk \<noteq> length xs then Inl IndexError
      else Inr (map fst (filter snd (zip xs msk))))"

text \<open>\<^verbatim>\<open>np.rint\<close>: to the nearest integer, halves to the even neighbour.\<close>

definition np_rint :: "real \<Rightarrow> real" where
  "np_rint x =
     (let f = \<lfloor>x\<rfloor>; d = x - of_int f
      in if d < 1 / 2 then of_int f
         else if 1 / 2 < d then of_int (f + 1)
         else if even f then of_int f else of_int (f + 1))"

definition rint3 :: "vec3 \<Rightarrow> vec3" where
  "rint3 v = (case v of (a, b, c) \<Rightarrow> (np_rint a, np_rint b, np_rint c))"

definition abs_diff3 :: "vec3 \<Rightarrow> vec3 \<Rightarrow> vec3" where
  "abs_diff3 u v =
     (case u of (a, b, c) \<Rightarrow> case v of (a', b', c') \<Rightarrow> (\<bar>a - a'\<bar>, \<bar>b - b'\<bar>, \<bar>c - c'\<bar>))"

definition max3 :: "vec3 \<Rightarrow> real" where
  "max3 v = (case v of (a, b, c) \<Rightarrow> max a (max b c))"

definition sum3 :: "vec3 \<Rightarrow> real" where
  "sum3 v = (case v of (a, b, c) \<Rightarrow> a + b + c)"

text \<open>
  The indexation of all peaks under one rotation: the rounded hkls, the hkl errors, the
  match rate and the mean error.  The einsum of the source is the product of the
  rotation matrix with each peak.
\<close>

record indexation =
  ix_rotation :: mat3
  ix_rhkls :: "vec3 list"
  ix_ehkls :: "vec3 list"
  ix_match_rate :: real
  ix_error_mean :: real

definition index_peaks :: "(vec3 \<Rightarrow> vec3) \<Rightarrow> vec3 list \<Rightarrow> real \<Rightarrow> mat3 \<Rightarrow> indexation" where
  "index_peaks fractional peaks index_error_tol R =
     (let hkls = map (\<lambda>p. fractional (matvec3 R p)) peaks;
          rhkls = map rint3 hkls;
          ehkls = map (\<lambda>(h, r). abs_diff3 h r) (zip hkls rhkls);
          valid_peak_count = length (filter (\<lambda>e. max3 e < index_error_tol) ehkls);
          num_peaks = length peaks
      in \<lparr>ix_rotation = R, ix_rhkls = rhkls, ix_ehkls = ehkls,
          ix_match_rate =
            (if num_peaks \<noteq> 0 then real valid_peak_count * (1 / real num_peaks) else 0),
          ix_error_mean = sum_list (map sum3 ehkls) / (real num_peaks * 3)\<rparr>)"

definition to_solution :: "nat \<Rightarrow> indexation \<Rightarrow> OrientationResult" where
  "to_solution phase_idx ix =
     \<lparr>phase_index = phase_idx, rotation_matrix = ix_rotation ix,
      match_rate = ix_match_rate ix, error_hkls = ix_ehkls ix,
      total_error = ix_error_mean ix, scale = 1, center_x = 0, center_y = 0\<rparr>"

text \<open>
  One pair of peaks against one phase: the solutions and rounded hkls it adds, nothing
  when no library row passes the tolerance mask (\<^verbatim>\<open>continue\<close>).
\<close>

definition pair_solutions ::
  "vector_phase \<Rightarrow> nat \<Rightarrow> vec3 list \<Rightarrow> real \<Rightarrow> real \<Rightarrow> real \<Rightarrow> nat \<times> nat \<Rightarrow>
   py_error + (OrientationResult list \<times> vec3 list list)" where
  "pair_solutions phase phase_idx peaks mag_tol angle_tol index_error_tol peak_pair_indices =
     (let qa = peaks ! fst peak_pair_indices;
          qb = peaks ! snd peak_pair_indices;
          q1 = (if norm3 qa < norm3 qb then qb else qa);
          q2 = (if norm3 qa < norm3 qb then qa else qb);
          q1_len = norm3 q1;
          q2_len = norm3 q2;
          angle = get_angle_cartesian q1 q2;
          msk = tolerance_mask (vp_measurements phase) q1_len q2_len angle mag_tol angle_tol
      in if length (filter id msk) = 0 then Inr ([], [])
         else
           bind_err (select_mask (vp_indices phase) msk) (\<lambda>selected.
           let reference_vectors =
                 map (\<lambda>(h1, h2). (lattice_cartesian phase h1, lattice_cartesian phase h2)) selected
           in
           bind_err (get_rotation_matrix_between_vectors q1 q2
                       (map fst reference_vectors) (map snd reference_vectors)) (\<lambda>rotations.
           let found = filter (\<lambda>ix. 0 < ix_match_rate ix)
                         (map (index_peaks (lattice_fractional phase) peaks index_error_tol)
                            rotations)
           in Inr (map (to_solution phase_idx) found, map ix_rhkls found))))"

fun pairs_loop ::
  "vector_phase \<Rightarrow> nat \<Rightarrow> vec3 list \<Rightarrow> real \<Rightarrow> real \<Rightarrow> real \<Rightarrow> (nat \<times> nat) list \<Rightarrow>
   OrientationResult list \<times> vec3 list list \<Rightarrow>
   py_error + (OrientationResult list \<times> vec3 list list)" where
  "pairs_loop phase phase_idx peaks mag_tol angle_tol index_error_tol [] acc = Inr acc"
| "pairs_loop phase phase_idx peaks mag_tol angle_tol index_error_tol (pp # pps) acc =
     (case pair_solutions phase phase_idx peaks mag_tol angle_tol index_error_tol pp of
        Inl e \<Rightarrow> Inl e
      | Inr (sols, rhkls) \<Rightarrow>
          pairs_loop phase phase_idx peaks mag_tol angle_tol index_error_tol pps
            (fst acc @ sols, snd acc @ rhkls))"

text \<open>The dummy entry that fills the rows a phase could not supply.\<close>

definition dummy_solution :: OrientationResult where
  "dummy_solution =
     \<lparr>phase_index = 0, rotation_matrix = identity3, match_rate = 0, error_hkls = [],
      total_error = 1, scale = 1, center_x = 0, center_y = 0\<rparr>"

text \<open>Slice assignment \<^verbatim>\<open>a[i : i + len(ys)] = ys\<close> inside the array.\<close>

definition assign_slice :: "'a list \<Rightarrow> nat \<Rightarrow> 'a list \<Rightarrow> 'a list" where
  "assign_slice xs i ys = take i xs @ ys @ drop (i + length ys) xs"

text \<open>
  The ranking and padding of one phase's solutions into its \<open>n_best\<close> rows of
  \<^verbatim>\<open>top_matches\<close>.
\<close>

definition store_phase ::
  "OrientationResult option list \<Rightarrow> nat \<Rightarrow> nat \<Rightarrow> OrientationResult list \<Rightarrow>
   OrientationResult option list" where
  "store_phase top_matches phase_idx n_best solutions =
     (let n_solutions = min n_best (length solutions);
          i = phase_idx * n_best;
          top1 = (if 0 < n_solutions
                  then assign_slice top_matches i
                         (map Some (take n_solutions (py_sorted match_rate True solutions)))
                  else top_matches)
      in if n_solutions < n_best
         then assign_slice top1 (i + n_solutions)
                (replicate (n_best - n_solutions) (Some dummy_solution))
         else top1)"

text \<open>
  The loop over the phases.  The state is \<^verbatim>\<open>top_matches\<close>, an object array that
  \<^verbatim>\<open>np.empty\<close> fills with \<^verbatim>\<open>None\<close>, and \<^verbatim>\<open>res_rhkls\<close>.  With fewer than two peaks the
  loop body ends at its \<^verbatim>\<open>continue\<close>, before the ranking and the padding.
\<close>

fun phases_loop ::
  "'a rounding_scheme \<Rightarrow> (real \<Rightarrow> real \<Rightarrow> real) \<Rightarrow> vec3 list \<Rightarrow> real \<Rightarrow> real \<Rightarrow> real \<Rightarrow> nat \<Rightarrow> nat \<Rightarrow>
   nat \<Rightarrow> vector_phase list \<Rightarrow> OrientationResult option list \<times> vec3 list list \<Rightarrow>
   py_error + (OrientationResult option list \<times> vec3 list list)" where
  "phases_loop R c2p peaks mag_tol angle_tol index_error_tol n_peaks_to_index n_best
       phase_idx [] st = Inr st"
| "phases_loop R c2p peaks mag_tol angle_tol index_error_tol n_peaks_to_index n_best
       phase_idx (phase # phases) st =
     (if length peaks < 2
      then phases_loop R c2p peaks mag_tol angle_tol index_error_tol n_peaks_to_index n_best
             (Suc phase_idx) phases st
      else
        (let unindexed_peak_ids = choose_peak_ids R c2p peaks n_peaks_to_index
         in case pairs_loop phase phase_idx peaks mag_tol angle_tol index_error_tol
                   (combinations2 unindexed_peak_ids) ([], []) of
              Inl e \<Rightarrow> Inl e
            | Inr (solutions, rhkls) \<Rightarrow>
                phases_loop R c2p peaks mag_tol angle_tol index_error_tol n_peaks_to_index n_best
                  (Suc phase_idx) phases
                  (store_phase (fst st) phase_idx n_best solutions, snd st @ rhkls)))"

definition match_vectors ::
  "'a rounding_scheme \<Rightarrow> (real \<Rightarrow> real \<Rightarrow> real) \<Rightarrow> vec3 list \<Rightarrow> vector_phase list \<Rightarrow> real \<Rightarrow> real \<Rightarrow> real \<Rightarrow>
   nat \<Rightarrow> nat \<Rightarrow> py_error + (OrientationResult option list \<times> vec3 list list)" where
  "match_vectors R c2p peaks library mag_tol angle_tol index_error_tol n_peaks_to_index n_best =
     phases_loop R c2p peaks mag_tol angle_tol index_error_tol n_peaks_to_index n_best
       0 library (replicate (length library * n_best) None, [])"

text \<open>
  The words of the specification for one phase: its top \<open>n_best\<close> solutions by match
  rate, the shortfall filled with the dummy entry.
\<close>

definition phase_block :: "nat \<Rightarrow> OrientationResult list \<Rightarrow> OrientationResult option list" where
  "phase_block n_best solutions =
     map Some (take n_best (py_sorted match_rate True solutions)) @
     replicate (n_best - length solutions) (Some dummy_solution)"

text \<open>
  For examples: a polar angle that is simply the second coordinate, and a one-phase
  library with one hkl pair at right angles, both of length 1, on a lattice whose
  cartesian and fractional maps are the identity.
\<close>

definition example_theta :: "real \<Rightarrow> real \<Rightarrow> real" where
  "example_theta x y = y"

definition example_phase :: vector_phase where
  "example_phase =
     \<lparr>vp_indices = [((1, 0, 0), (0, 1, 0))], vp_measurements = [(1, 1, pi / 2)],
      lattice_cartesian = (\<lambda>v. v), lattice_fractional = (\<lambda>v. v)\<rparr>"

section \<open>Template matching against a library\<close>

text \<open>
  Comparisons of NumPy floats: every comparison with \<open>nan\<close> is false; \<^verbatim>\<open>np.min\<close> and
  \<^verbatim>\<open>np.argmin\<close> give the first \<open>nan\<close> if there is one; \<^verbatim>\<open>argsort\<close> puts \<open>nan\<close> last.
\<close>

fun sort_rank :: "np_float \<Rightarrow> nat \<times> real" where
  "sort_rank NegInf = (0, 0)"
| "sort_rank (Finite x) = (1, x)"
| "sort_rank PosInf = (2, 0)"
| "sort_rank NaN = (3, 0)"

fun min_rank :: "np_float \<Rightarrow> nat \<times> real" where
  "min_rank NaN = (0, 0)"
| "min_rank NegInf = (1, 0)"
| "min_rank (Finite x) = (2, x)"
| "min_rank PosInf = (3, 0)"

definition np_greater :: "np_float \<Rightarrow> np_float \<Rightarrow> bool" where
  "np_greater a b \<longleftrightarrow> a \<noteq> NaN \<and> b \<noteq> NaN \<and> sort_rank b < sort_rank a"

fun argmin_scan :: "nat \<Rightarrow> np_float \<Rightarrow> nat \<Rightarrow> np_float list \<Rightarrow> nat" where
  "argmin_scan bi bv i [] = bi"
| "argmin_scan bi bv i (x # xs) =
     (if min_rank x < min_rank bv then argmin_scan i x (Suc i) xs
      else argmin_scan bi bv (Suc i) xs)"

definition np_argmin :: "np_float list \<Rightarrow> py_error + nat" where
  "np_argmin xs = (case xs of [] \<Rightarrow> Inl ValueError | x # ys \<Rightarrow> Inr (argmin_scan 0 x 1 ys))"

text \<open>Indexing with an integer that may be negative (it then counts from the end).\<close>

definition py_index :: "'a list \<Rightarrow> int \<Rightarrow> py_error + 'a" where
  "py_index xs i =
     (if 0 \<le> i \<and> i < int (length xs) then Inr (xs ! nat i)
      else if i < 0 \<and> - int (length xs) \<le> i then Inr (xs ! nat (int (length xs) + i))
      else Inl IndexError)"

text \<open>
  The image is the list of its rows.  \<^verbatim>\<open>image[px_local[:, 1], px_local[:, 0]]\<close> reads,
  for each pixel coordinate \<open>(x, y)\<close> of the template, row \<open>y\<close> and column \<open>x\<close>.
\<close>

definition image_get :: "real list list \<Rightarrow> int \<times> int \<Rightarrow> py_error + real" where
  "image_get img px = bind_err (py_index img (snd px)) (\<lambda>row. py_index row (fst px))"

record library_entry =
  le_orientations :: "vec3 list"
  le_pixel_coords :: "(int \<times> int) list list"
  le_intensities :: "real list list"
  le_pattern_norms :: "real list"

text \<open>
  A cell of the object array \<^verbatim>\<open>top_matches\<close>; \<^verbatim>\<open>np.empty(..., dtype="object")\<close> fills it
  with \<^verbatim>\<open>None\<close>.
\<close>

datatype cell = PhaseIndex nat | OrientationCell vec3 | CorrelationCell np_float

text \<open>
  The score of one template, a double (\<open>nan\<close> is a value, not an exception).  A method
  other than the two named ones assigns nothing to \<^verbatim>\<open>corr_local\<close>, and the comparison that
  follows raises \<^verbatim>\<open>UnboundLocalError\<close>.  Image pixels, template intensities and pattern
  norms are finite doubles.
\<close>

definition template_score ::
  "float_model \<Rightarrow> string \<Rightarrow> nat \<Rightarrow> np_float \<Rightarrow> np_float \<Rightarrow> real list \<Rightarrow> real list \<Rightarrow> real \<Rightarrow>
   py_error + np_float" where
  "template_score M method nb_pixels image_std average_image_intensity
       image_intensities int_local pn_local =
     (if method = ''zero_mean_normalized_correlation'' then
        zero_mean_normalized_correlation M nb_pixels image_std average_image_intensity
          (map Finite image_intensities) (map Finite int_local)
      else if method = ''fast_correlation'' then
        fast_correlation M (map Finite image_intensities) (map Finite int_local)
          (Finite pn_local)
      else Inl UnboundLocalError)"

text \<open>
  The online replacement of the weakest saved score; \<^verbatim>\<open>np.min\<close> of an empty
  \<^verbatim>\<open>corr_saved\<close> (\<open>n_largest = 0\<close>) raises \<^verbatim>\<open>ValueError\<close>.
\<close>

definition update_saved ::
  "vec3 \<Rightarrow> np_float \<Rightarrow> vec3 list \<times> np_float list \<Rightarrow> py_error + (vec3 list \<times> np_float list)" where
  "update_saved or_local corr_local saved =
     bind_err (np_argmin (snd saved)) (\<lambda>k.
       if np_greater corr_local (snd saved ! k)
       then Inr ((fst saved)[k := or_local], (snd saved)[k := corr_local])
       else Inr saved)"

text \<open>
  The rows written for one phase after a template: the saved entries by descending
  correlation (\<^verbatim>\<open>np.flip\<close> of the \<^verbatim>\<open>argsort\<close>, taken stable).
\<close>

definition ranked_rows :: "nat \<Rightarrow> vec3 list \<times> np_float list \<Rightarrow> cell option list list" where
  "ranked_rows phase_idx saved =
     map (\<lambda>i. [Some (PhaseIndex phase_idx), Some (OrientationCell (fst saved ! i)),
               Some (CorrelationCell (snd saved ! i))])
         (rev (sort_key (\<lambda>i. sort_rank (snd saved ! i)) [0..<length (snd saved)]))"

fun templates_loop ::
  "float_model \<Rightarrow> real list list \<Rightarrow> string \<Rightarrow> nat \<Rightarrow> np_float \<Rightarrow> np_float \<Rightarrow> nat \<Rightarrow>
   (vec3 \<times> (int \<times> int) list \<times> real list \<times> real) list \<Rightarrow>
   (vec3 list \<times> np_float list) \<times> cell option list list \<Rightarrow>
   py_error + ((vec3 list \<times> np_float list) \<times> cell option list list)" where
  "templates_loop M img method nb_pixels image_std avg phase_idx [] st = Inr st"
| "templates_loop M img method nb_pixels image_std avg phase_idx
       ((or_local, px_local, int_local, pn_local) # ts) st =
     bind_err (sequence_err (map (image_get img) px_local)) (\<lambda>image_intensities.
     bind_err (template_score M method nb_pixels image_std avg image_intensities
                 int_local pn_local) (\<lambda>corr_local.
     bind_err (update_saved or_local corr_local (fst st)) (\<lambda>saved.
       templates_loop M img method nb_pixels image_std avg phase_idx ts
         (saved, ranked_rows phase_idx saved))))"

text \<open>
  One phase.  \<^verbatim>\<open>or_saved = np.empty((n_largest, 3))\<close> holds whatever the memory held;
  that content is the parameter \<open>uninitialized\<close>.  \<^verbatim>\<open>corr_saved\<close> starts at zero.  The
  phase's slice of \<^verbatim>\<open>top_matches\<close> starts as \<^verbatim>\<open>None\<close> and stays so for a phase
  without templates.
\<close>

definition phase_rows ::
  "float_model \<Rightarrow> (nat \<Rightarrow> vec3) \<Rightarrow> real list list \<Rightarrow> string \<Rightarrow> nat \<Rightarrow> np_float \<Rightarrow> np_float \<Rightarrow>
   nat \<Rightarrow> nat \<Rightarrow> library_entry \<Rightarrow> py_error + cell option list list" where
  "phase_rows M uninitialized img method nb_pixels image_std avg n_largest phase_idx entry =
     (let zip_for_locals =
            zip (le_orientations entry)
              (zip (le_pixel_coords entry) (zip (le_intensities entry) (le_pattern_norms entry)));
          saved0 = (map uninitialized [0..<n_largest], replicate n_largest (Finite 0))
      in bind_err
           (templates_loop M img method nb_pixels image_std avg phase_idx zip_for_locals
              (saved0, replicate n_largest [None, None, None]))
           (\<lambda>st. Inr (snd st)))"

fun library_loop ::
  "float_model \<Rightarrow> (nat \<Rightarrow> vec3) \<Rightarrow> real list list \<Rightarrow> string \<Rightarrow> nat \<Rightarrow> np_float \<Rightarrow> np_float \<Rightarrow>
   nat \<Rightarrow> nat \<Rightarrow> library_entry list \<Rightarrow> py_error + cell option list list list" where
  "library_loop M uninitialized img method nb_pixels image_std avg n_largest phase_idx [] =
     Inr []"
| "library_loop M uninitialized img method nb_pixels image_std avg n_largest phase_idx (e # es) =
     bind_err (phase_rows M uninitialized img method nb_pixels image_std avg n_largest
                 phase_idx e)
       (\<lambda>rows.
     bind_err (library_loop M uninitialized img method nb_pixels image_std avg n_largest
                 (Suc phase_idx) es) (\<lambda>rest. Inr (rows # rest)))"

text \<open>
  \<^verbatim>\<open>correlate_library\<close>.  The image statistics of the zero-mean method
  (\<^verbatim>\<open>np.average(image)\<close> and \<^verbatim>\<open>np.linalg.norm(image - average)\<close>) are computed before the
  mask is tested; they raise nothing.  \<^verbatim>\<open>mask == 1\<close> holds for \<^verbatim>\<open>True\<close> and for 1.  The
  result is \<^verbatim>\<open>top_matches.reshape(-1, 3)\<close>: the rows of all phases in order.
\<close>

definition correlate_library ::
  "float_model \<Rightarrow> (nat \<Rightarrow> vec3) \<Rightarrow> real list list \<Rightarrow> library_entry list \<Rightarrow> nat \<Rightarrow> string \<Rightarrow>
   int \<Rightarrow> py_error + cell option list list" where
  "correlate_library M uninitialized img library n_largest method msk =
     (let top_matches = replicate (length library) (replicate n_largest [None, None, None]);
          pixels = map Finite (concat img);
          nb_pixels = length img * (if img = [] then 0 else length (hd img));
          average_image_intensity = np_average M pixels;
          image_std = np_linalg_norm M (map (\<lambda>p. f_sub M p average_image_intensity) pixels)
      in if msk = 1
         then bind_err (library_loop M uninitialized img method nb_pixels image_std
                          average_image_intensity n_largest 0 library)
                (\<lambda>tops. Inr (concat tops))
         else Inr (concat top_matches))"

text \<open>
  Inputs on which the scoring cannot raise: every template pixel lies inside the image
  (an index \<open>i\<close> of an axis of length \<open>n\<close> is in range for \<open>-n \<le> i < n\<close>), every template
  has one intensity per pixel, and the method is one of the two that
  \<^verbatim>\<open>correlate_library\<close> scores.
\<close>

definition index_in_range :: "nat \<Rightarrow> int \<Rightarrow> bool" where
  "index_in_range n i \<longleftrightarrow> - int n \<le> i \<and> i < int n"

definition pixel_in_image :: "real list list \<Rightarrow> int \<times> int \<Rightarrow> bool" where
  "pixel_in_image img px \<longleftrightarrow>
     index_in_range (length img) (snd px) \<and>
     index_in_range
       (length (img ! nat (if snd px < 0 then int (length img) + snd px else snd px)))
       (fst px)"

definition template_well_formed ::
  "real list list \<Rightarrow> vec3 \<times> (int \<times> int) list \<times> real list \<times> real \<Rightarrow> bool" where
  "template_well_formed img t \<longleftrightarrow>
     (case t of (or_local, px_local, int_local, pn_local) \<Rightarrow>
        list_all (pixel_in_image img) px_local \<and> length px_local = length int_local)"

definition entry_well_formed :: "real list list \<Rightarrow> library_entry \<Rightarrow> bool" where
  "entry_well_formed img entry \<longleftrightarrow>
     list_all (template_well_formed img)
       (zip (le_orientations entry)
          (zip (le_pixel_coords entry) (zip (le_intensities entry) (le_pattern_norms entry))))"

definition supported_method :: "string \<Rightarrow> bool" where
  "supported_method method \<longleftrightarrow>
     method = ''zero_mean_normalized_correlation'' \<or> method = ''fast_correlation''"

text \<open>
  For examples: an uninitialised \<^verbatim>\<open>or_saved\<close> that holds sevens, a library entry of
  two templates on a 1x2 image, and one whose only pixel lies outside a 1x1 image.
\<close>

definition stale_memory :: "nat \<Rightarrow> vec3" where
  "stale_memory i = (7, 7, 7)"

definition example_entry :: library_entry where
  "example_entry =
     \<lparr>le_orientations = [(0, 0, 0), (10, 20, 30)], le_pixel_coords = [[(0, 0)], [(1, 0)]],
      le_intensities = [[1], [2]], le_pattern_norms = [1, 2]\<rparr>"

definition outside_entry :: library_entry where
  "outside_entry =
     \<lparr>le_orientations = [(0, 0, 0)], le_pixel_coords = [[(3, 3)]],
      le_intensities = [[1]], le_pattern_norms = [1]\<rparr>"

section \<open>Properties: result reduction for template matching\<close>

lemma argmax_scan_inv:
  assumes "length pre = i" "bi < i" "pre ! bi = bv"
    and "\<forall>j<i. pre ! j \<le> bv" and "\<forall>j<bi. pre ! j < bv"
  shows "argmax_scan bi bv i xs < length (pre @ xs) \<and>
         (\<forall>j<length (pre @ xs). (pre @ xs) ! j \<le> (pre @ xs) ! argmax_scan bi bv i xs) \<and>
         (\<forall>j<argmax_scan bi bv i xs. (pre @ xs) ! j < (pre @ xs) ! argmax_scan bi bv i xs)"
  using assms
proof (induction xs arbitrary: pre i bi bv)
  case Nil
  then show ?case by auto
next
  case (Cons x xs)
  show ?case
  proof (cases "bv < x")
    case True
    have "argmax_scan i x (Suc i) xs < length ((pre @ [x]) @ xs) \<and>
         (\<forall>j<length ((pre @ [x]) @ xs). ((pre @ [x]) @ xs) ! j \<le> ((pre @ [x]) @ xs) ! argmax_scan i x (Suc i) xs) \<and>
         (\<forall>j<argmax_scan i x (Suc i) xs. ((pre @ [x]) @ xs) ! j < ((pre @ [x]) @ xs) ! argmax_scan i x (Suc i) xs)"
    proof (rule Cons.IH)
      show "length (pre @ [x]) = Suc i" using Cons.prems by simp
      show "i < Suc i" by simp
      show "(pre @ [x]) ! i = x" using Cons.prems by (simp add: nth_append)
      show "\<forall>j<Suc i. (pre @ [x]) ! j \<le> x"
        using Cons.prems True by (auto simp: nth_append less_Suc_eq)
      show "\<forall>j<i. (pre @ [x]) ! j < x"
        using Cons.prems True by (auto simp: nth_append intro: le_less_trans)
    qed
    then show ?thesis using True by simp
  next
    case False
    have "argmax_scan bi bv (Suc i) xs < length ((pre @ [x]) @ xs) \<and>
         (\<forall>j<length ((pre @ [x]) @ xs). ((pre @ [x]) @ xs) ! j \<le> ((pre @ [x]) @ xs) ! argmax_scan bi bv (Suc i) xs) \<and>
         (\<forall>j<argmax_scan bi bv (Suc i) xs. ((pre @ [x]) @ xs) ! j < ((pre @ [x]) @ xs) ! argmax_scan bi bv (Suc i) xs)"
    proof (rule Cons.IH)
      show "length (pre @ [x]) = Suc i" using Cons.prems by simp
      show "bi < Suc i" using Cons.prems by simp
      show "(pre @ [x]) ! bi = bv" using Cons.prems by (simp add: nth_append)
      show "\<forall>j<Suc i. (pre @ [x]) ! j \<le> bv"
        using Cons.prems False by (auto simp: nth_append less_Suc_eq)
      show "\<forall>j<bi. (pre @ [x]) ! j < bv"
        using Cons.prems by (auto simp: nth_append)
    qed
    then show ?thesis using False by simp
  qed
qed

lemma np_argmax_first_max:
  assumes "xs \<noteq> []"
  shows "\<exists>k. np_argmax xs = Inr k \<and> k < length xs \<and>
             (\<forall>j<length xs. xs ! j \<le> xs ! k) \<and> (\<forall>j<k. xs ! j < xs ! k)"
proof -
  obtain x ys where xs: "xs = x # ys" using assms by (cases xs) auto
  have "argmax_scan 0 x 1 ys < length ([x] @ ys) \<and>
         (\<forall>j<length ([x] @ ys). ([x] @ ys) ! j \<le> ([x] @ ys) ! argmax_scan 0 x 1 ys) \<and>
         (\<forall>j<argmax_scan 0 x 1 ys. ([x] @ ys) ! j < ([x] @ ys) ! argmax_scan 0 x 1 ys)"
    by (rule argmax_scan_inv) auto
  then show ?thesis by (simp add: xs np_argmax_def)
qed

lemma max_scan_Max: "max_scan m xs = Max (insert m (set xs))"
proof (induction xs arbitrary: m)
  case Nil
  then show ?case by simp
next
  case (Cons x xs)
  have "max_scan m (x # xs) = Max (insert (if m < x then x else m) (set xs))"
    by (simp add: Cons.IH)
  also have "\<dots> = max (if m < x then x else m) (Max (insert x (set xs)))"
    by (cases "set xs = {}") (auto simp: max_def)
  also have "\<dots> = Max (insert m (insert x (set xs)))"
    by (cases "set xs = {}") (auto simp: max_def)
  finally show ?case by simp
qed

lemma np_max_Max: "xs \<noteq> [] \<Longrightarrow> np_max xs = Inr (Max (set xs))"
  by (cases xs) (simp_all add: np_max_def max_scan_Max)

lemma sorted_last_Max:
  fixes zs :: "real list"
  assumes "sorted zs" "zs \<noteq> []"
  shows "last zs = Max (set zs)"
proof -
  have "\<forall>z\<in>set zs. z \<le> last zs"
  proof
    fix z assume "z \<in> set zs"
    then obtain j where j: "j < length zs" "zs ! j = z" by (auto simp: in_set_conv_nth)
    have "zs ! j \<le> zs ! (length zs - 1)"
      using assms(1) j(1) by (intro sorted_nth_mono) auto
    then show "z \<le> last zs" using j assms(2) by (simp add: last_conv_nth)
  qed
  moreover have "last zs \<in> set zs" using assms(2) by simp
  ultimately show ?thesis by (intro Max_eqI[symmetric]) auto
qed

lemma sort_second_last:
  fixes xs :: "real list"
  assumes "2 \<le> length xs"
  shows "sort xs ! (length xs - 2) = Max (set (remove1 (Max (set xs)) xs))"
proof -
  define m where "m = Max (set xs)"
  define ys where "ys = remove1 m xs"
  have ne: "xs \<noteq> []" using assms by auto
  have m_in: "m \<in> set xs" unfolding m_def using ne by simp
  have m_ge: "\<forall>x\<in>set xs. x \<le> m" unfolding m_def by simp
  have len: "length ys = length xs - 1" unfolding ys_def using m_in by (simp add: length_remove1)
  have ys_ne: "ys \<noteq> []" using len assms by auto
  have "set ys \<subseteq> set xs" unfolding ys_def by (rule set_remove1_subset)
  then have srt: "sorted (sort ys @ [m])" using m_ge by (auto simp: sorted_append)
  have "mset (sort ys @ [m]) = mset xs" unfolding ys_def using m_in by simp
  then have "sort xs = sort ys @ [m]" using srt by (metis properties_for_sort)
  then have "sort xs ! (length xs - 2) = (sort ys @ [m]) ! (length ys - 1)"
    using len assms by (simp add: numeral_2_eq_2)
  also have "\<dots> = sort ys ! (length ys - 1)" using ys_ne by (simp add: nth_append)
  also have "\<dots> = last (sort ys)"
  proof -
    have "length (sort ys) = length ys" by simp
    then have "sort ys \<noteq> []" using ys_ne by (metis length_0_conv)
    then show ?thesis using last_conv_nth [of "sort ys"] by simp
  qed
  also have "\<dots> = Max (set ys)"
  proof -
    have "length (sort ys) = length ys" by simp
    then have "sort ys \<noteq> []" using ys_ne by (metis length_0_conv)
    then show ?thesis using sorted_last_Max [of "sort ys"] by simp
  qed
  finally show ?thesis unfolding ys_def m_def .
qed

lemma np_argmax_is_first_global_max:
  assumes "is_first_global_max z i"
  shows "np_argmax (map tm_correlation z) = Inr i"
proof -
  have ne: "map tm_correlation z \<noteq> []" using assms by (auto simp: is_first_global_max_def)
  obtain k where k: "np_argmax (map tm_correlation z) = Inr k" "k < length z"
    "\<forall>j<length z. tm_correlation (z ! j) \<le> tm_correlation (z ! k)"
    "\<forall>j<k. tm_correlation (z ! j) < tm_correlation (z ! k)"
    using np_argmax_first_max [OF ne] by auto
  have i: "i < length z" "\<forall>j<length z. tm_correlation (z ! j) \<le> tm_correlation (z ! i)"
    "\<forall>j<i. tm_correlation (z ! j) < tm_correlation (z ! i)"
    using assms by (auto simp: is_first_global_max_def)
  have "\<not> k < i" using i(3) k(2,3) i(1) by (meson not_le)
  moreover have "\<not> i < k" using k(4) i(1,2) k(2) by (meson not_le)
  ultimately have "k = i" by simp
  then show ?thesis using k(1) by simp
qed

lemma other_phase_nonempty:
  assumes "2 \<le> n_unique_phases z"
  shows "filter (\<lambda>r. tm_phase r \<noteq> p) z \<noteq> []"
proof -
  have "2 \<le> card (tm_phase ` set z)"
    using assms by (simp add: n_unique_phases_def length_remdups_card_conv)
  then have "\<not> tm_phase ` set z \<subseteq> {p}"
    by (metis card_mono card.empty card_insert_disjoint empty_iff finite.emptyI finite.insertI
        numeral_le_one_iff semiring_norm(69) One_nat_def le_trans)
  then obtain r where "r \<in> set z" "tm_phase r \<noteq> p" by auto
  then show ?thesis by (auto simp: filter_empty_conv)
qed

text \<open>
  Claim C1 (multi-phase reduction), as the code has it.  When the rows span at least
  two phases, the phase of the best row holds at least two rows and the best score is
  not zero, \<^const>\<open>crystal_from_template_matching\<close> returns the phase and
  orientation of the first row with the globally maximal score, with
  \<open>orientation_reliability = 100 * (1 - s / best)\<close> for \<open>s\<close> the second-best score of
  the same phase and \<open>phase_reliability = 100 * (1 - p / best)\<close> for \<open>p\<close> the best score
  of any other phase.
\<close>

theorem crystal_multi_phase_reliabilities:
  assumes multi: "2 \<le> n_unique_phases z"
    and best: "is_first_global_max z i"
    and two: "2 \<le> length (filter (\<lambda>r. tm_phase r = tm_phase (z ! i)) z)"
    and nz: "tm_correlation (z ! i) \<noteq> 0"
  shows "crystal_from_template_matching z =
     Inr \<lparr>cr_phase = tm_phase (z ! i), cr_orientation = tm_orientation (z ! i),
          cr_metrics =
            [(''correlation'', tm_correlation (z ! i)),
             (''orientation_reliability'',
                100 * (1 - second_best (map tm_correlation
                             (filter (\<lambda>r. tm_phase r = tm_phase (z ! i)) z))
                           / tm_correlation (z ! i))),
             (''phase_reliability'',
                100 * (1 - Max (set (map tm_correlation
                             (filter (\<lambda>r. tm_phase r \<noteq> tm_phase (z ! i)) z)))
                           / tm_correlation (z ! i)))]\<rparr>"
proof -
  let ?same = "filter (\<lambda>r. tm_phase r = tm_phase (z ! i)) z"
  let ?other = "filter (\<lambda>r. tm_phase r \<noteq> tm_phase (z ! i)) z"
  have am: "np_argmax (map tm_correlation z) = Inr i"
    by (rule np_argmax_is_first_global_max [OF best])
  have sec: "np_partition_second_last (map tm_correlation ?same) =
               Inr (second_best (map tm_correlation ?same))"
    using two sort_second_last [of "map tm_correlation ?same"]
    by (simp add: np_partition_second_last_def second_best_def)
  have "map tm_correlation ?other \<noteq> []"
    using other_phase_nonempty [OF multi] by simp
  then have oth: "np_max (map tm_correlation ?other) = Inr (Max (set (map tm_correlation ?other)))"
    by (rule np_max_Max)
  have "n_unique_phases z \<noteq> 1" using multi by simp
  then show ?thesis
    using nz
    by (simp add: crystal_from_template_matching_def crystal_multi_phase_def am sec oth
        bind_err_def reliability_def py_div_def Let_def)
qed

text \<open>
  The scenario of the specification: scores \<open>[[0, \<theta>0, 100], [0, \<theta>1, 1], [1, \<theta>2, 50]]\<close>
  select phase 0 and \<open>\<theta>0\<close> with \<open>phase_reliability = 50\<close>.
\<close>

theorem crystal_multi_phase_example:
  "2 \<le> n_unique_phases
     [\<lparr>tm_phase = 0, tm_orientation = (0::nat), tm_correlation = 100\<rparr>,
      \<lparr>tm_phase = 0, tm_orientation = 1, tm_correlation = 1\<rparr>,
      \<lparr>tm_phase = 1, tm_orientation = 2, tm_correlation = 50\<rparr>] \<and>
   crystal_from_template_matching
     [\<lparr>tm_phase = 0, tm_orientation = (0::nat), tm_correlation = 100\<rparr>,
      \<lparr>tm_phase = 0, tm_orientation = 1, tm_correlation = 1\<rparr>,
      \<lparr>tm_phase = 1, tm_orientation = 2, tm_correlation = 50\<rparr>] =
   Inr \<lparr>cr_phase = 0, cr_orientation = 0,
        cr_metrics = [(''correlation'', 100), (''orientation_reliability'', 99),
                      (''phase_reliability'', 50)]\<rparr>"
proof -
  let ?z = "[\<lparr>tm_phase = 0, tm_orientation = (0::nat), tm_correlation = 100\<rparr>,
      \<lparr>tm_phase = 0, tm_orientation = 1, tm_correlation = 1\<rparr>,
      \<lparr>tm_phase = 1, tm_orientation = 2, tm_correlation = 50\<rparr>]"
  have a: "2 \<le> n_unique_phases ?z" by (simp add: n_unique_phases_def)
  have b: "is_first_global_max ?z 0"
    by (simp add: is_first_global_max_def less_Suc_eq numeral_3_eq_3)
  have c: "2 \<le> length (filter (\<lambda>r. tm_phase r = tm_phase (?z ! 0)) ?z)" by simp
  have d: "tm_correlation (?z ! 0) \<noteq> 0" by simp
  have "crystal_from_template_matching ?z =
   Inr \<lparr>cr_phase = 0, cr_orientation = 0,
        cr_metrics = [(''correlation'', 100), (''orientation_reliability'', 99),
                      (''phase_reliability'', 50)]\<rparr>"
    using crystal_multi_phase_reliabilities [OF a b c d]
    by (simp add: second_best_def)
  then show ?thesis using a by blast
qed

text \<open>
  Claim C1 as stated fails on a two-phase array whose best phase has a single row:
  \<^verbatim>\<open>np.partition(z[:, 2], -2)\<close> has no position \<open>-2\<close> and raises.
\<close>

theorem crystal_multi_phase_counterexample:
  "n_unique_phases
     [\<lparr>tm_phase = 0, tm_orientation = (0::nat), tm_correlation = 100\<rparr>,
      \<lparr>tm_phase = 1, tm_orientation = 2, tm_correlation = 50\<rparr>] = 2 \<and>
   crystal_from_template_matching
     [\<lparr>tm_phase = 0, tm_orientation = (0::nat), tm_correlation = 100\<rparr>,
      \<lparr>tm_phase = 1, tm_orientation = 2, tm_correlation = 50\<rparr>] = Inl ValueError"
  by (simp add: n_unique_phases_def crystal_from_template_matching_def crystal_multi_phase_def
      np_argmax_def np_partition_second_last_def bind_err_def Let_def)

text \<open>
  Claim C2 (single-phase reduction), as the code has it.  When all rows share one phase
  and either there are at least two rows or the rank-0 score is not positive,
  \<^const>\<open>crystal_from_template_matching\<close> returns the phase and orientation of the
  rank-0 row, with \<open>orientation_reliability = 100 * (1 - second / best)\<close> when the rank-0
  score is positive and \<open>100\<close> otherwise.
\<close>

theorem crystal_single_phase_reliability:
  assumes single: "n_unique_phases z = 1"
    and two: "0 < tm_correlation (z ! 0) \<longrightarrow> 2 \<le> length z"
  shows "crystal_from_template_matching z =
     Inr \<lparr>cr_phase = tm_phase (z ! 0), cr_orientation = tm_orientation (z ! 0),
          cr_metrics =
            [(''correlation'', tm_correlation (z ! 0)),
             (''orientation_reliability'',
                if 0 < tm_correlation (z ! 0)
                then 100 * (1 - tm_correlation (z ! 1) / tm_correlation (z ! 0))
                else 100)]\<rparr>"
proof -
  have "z \<noteq> []" using single by (auto simp: n_unique_phases_def)
  then have z0: "py_get z 0 = Inr (z ! 0)" by (simp add: py_get_def)
  show ?thesis
  proof (cases "0 < tm_correlation (z ! 0)")
    case True
    then have "py_get z 1 = Inr (z ! 1)" using two by (simp add: py_get_def)
    then show ?thesis using True single z0
      by (simp add: crystal_from_template_matching_def crystal_single_phase_def
          bind_err_def reliability_def py_div_def)
  next
    case False
    then show ?thesis using single z0
      by (simp add: crystal_from_template_matching_def crystal_single_phase_def bind_err_def)
  qed
qed

text \<open>The all-tied score column \<open>[10, 10, 10]\<close> has orientation reliability 0.\<close>

theorem crystal_single_phase_ties:
  "n_unique_phases
     [\<lparr>tm_phase = 0, tm_orientation = (0::nat), tm_correlation = 10\<rparr>,
      \<lparr>tm_phase = 0, tm_orientation = 1, tm_correlation = 10\<rparr>,
      \<lparr>tm_phase = 0, tm_orientation = 2, tm_correlation = 10\<rparr>] = 1 \<and>
   crystal_from_template_matching
     [\<lparr>tm_phase = 0, tm_orientation = (0::nat), tm_correlation = 10\<rparr>,
      \<lparr>tm_phase = 0, tm_orientation = 1, tm_correlation = 10\<rparr>,
      \<lparr>tm_phase = 0, tm_orientation = 2, tm_correlation = 10\<rparr>] =
   Inr \<lparr>cr_phase = 0, cr_orientation = 0,
        cr_metrics = [(''correlation'', 10), (''orientation_reliability'', 0)]\<rparr>"
proof -
  let ?z = "[\<lparr>tm_phase = 0, tm_orientation = (0::nat), tm_correlation = 10\<rparr>,
      \<lparr>tm_phase = 0, tm_orientation = 1, tm_correlation = 10\<rparr>,
      \<lparr>tm_phase = 0, tm_orientation = 2, tm_correlation = 10\<rparr>]"
  have a: "n_unique_phases ?z = 1" by (simp add: n_unique_phases_def)
  have b: "0 < tm_correlation (?z ! 0) \<longrightarrow> 2 \<le> length ?z" by simp
  show ?thesis using a crystal_single_phase_reliability [OF a b] by simp
qed

text \<open>
  Claim C2 as stated fails on a single row with a positive score: the conditional
  expression reads \<^verbatim>\<open>z_matches[1, 2]\<close>, which does not exist.
\<close>

theorem crystal_single_phase_counterexample:
  "n_unique_phases [\<lparr>tm_phase = 0, tm_orientation = (0::nat), tm_correlation = 10\<rparr>] = 1 \<and>
   crystal_from_template_matching
     [\<lparr>tm_phase = 0, tm_orientation = (0::nat), tm_correlation = 10\<rparr>] = Inl IndexError"
  by (simp add: n_unique_phases_def crystal_from_template_matching_def crystal_single_phase_def
      py_get_def bind_err_def)

section \<open>Properties: result reduction for vector matching\<close>












text \<open>The substitution itself: a runner-up whose error is zero counts as error \<open>1\<close>.\<close>

lemma crystal_from_vector_matching_zero_runner_up:
  "crystal_from_vector_matching id [vm_row 0 1 0, vm_row 0 1 0] =
   Inr \<lparr>vr_phase = 0, vr_orientation = ((1, 0, 0), (0, 1, 0), (0, 0, 1)),
        vr_metrics = [(''match_rate'', Scalar 1), (''ehkls'', HklErrors []),
                      (''total_error'', Scalar 0),
                      (''orientation_reliability'', Scalar 100)]\<rparr>"
  by (simp add: crystal_from_vector_matching_def bind_err_def Let_def get_nth_best_solution_def
      reliability_def py_div_def py_sorted_def py_get_def vm_row_def)

section \<open>Properties: zero-mean normalised correlation\<close>

lemma f_round_not_nan: "f_round R x \<noteq> NaN"
  by (simp add: f_round_def)

lemma f_div_finite_not_nan:
  assumes "is_finite a" "is_finite b" "b \<noteq> Finite 0"
  shows "f_div R a b \<noteq> NaN"
proof -
  obtain x where a: "a = Finite x" using assms(1) by (cases a) auto
  obtain y where b: "b = Finite y" using assms(2) by (cases b) auto
  have "y \<noteq> 0" using assms(3) b by simp
  then show ?thesis by (simp add: a b f_round_not_nan)
qed

lemma np_multiply_compatible:
  assumes "length xs = length ys \<or> length xs = 1 \<or> length ys = 1"
  shows "\<exists>products. np_multiply M xs ys = Inr products"
  using assms by (auto simp: np_multiply_def)

text \<open>
  Claim C6, as the code has it, in doubles under any rounding.  When the shapes of
  \<open>image_intensities\<close> and \<open>int_local\<close> are compatible,
  \<^const>\<open>zero_mean_normalized_correlation\<close> raises nothing and returns one double: 0
  whenever the computed \<^const>\<open>match_denominator\<close> is 0, the quotient of the computed
  \<^const>\<open>match_numerator\<close> by it otherwise; and that double is not \<open>nan\<close> when the computed
  numerator and denominator are both finite.
\<close>

theorem zero_mean_normalized_correlation_guard:
  assumes "length image_intensities = length int_local \<or> length image_intensities = 1 \<or>
           length int_local = 1"
  shows "\<exists>products.
           np_multiply M image_intensities int_local = Inr products \<and>
           zero_mean_normalized_correlation M nb_pixels image_std average_image_intensity
               image_intensities int_local =
             Inr (if match_denominator M nb_pixels image_std int_local
                       (average_pattern_intensity M nb_pixels int_local) = Finite 0
                  then Finite 0
                  else f_div M
                         (match_numerator M nb_pixels average_image_intensity products
                            (average_pattern_intensity M nb_pixels int_local))
                         (match_denominator M nb_pixels image_std int_local
                            (average_pattern_intensity M nb_pixels int_local))) \<and>
           (is_finite (match_numerator M nb_pixels average_image_intensity products
                         (average_pattern_intensity M nb_pixels int_local)) \<and>
            is_finite (match_denominator M nb_pixels image_std int_local
                         (average_pattern_intensity M nb_pixels int_local)) \<longrightarrow>
            zero_mean_normalized_correlation M nb_pixels image_std average_image_intensity
               image_intensities int_local \<noteq> Inr NaN)"
proof -
  obtain products where p: "np_multiply M image_intensities int_local = Inr products"
    using np_multiply_compatible [OF assms] by blast
  let ?api = "average_pattern_intensity M nb_pixels int_local"
  let ?num = "match_numerator M nb_pixels average_image_intensity products ?api"
  let ?den = "match_denominator M nb_pixels image_std int_local ?api"
  have r: "zero_mean_normalized_correlation M nb_pixels image_std average_image_intensity
             image_intensities int_local =
           Inr (if ?den = Finite 0 then Finite 0 else f_div M ?num ?den)"
    by (simp add: zero_mean_normalized_correlation_def p bind_err_def Let_def)
  have "zero_mean_normalized_correlation M nb_pixels image_std average_image_intensity
             image_intensities int_local \<noteq> Inr NaN"
    if "is_finite ?num \<and> is_finite ?den"
  proof (cases "?den = Finite 0")
    case True
    then show ?thesis by (simp add: r)
  next
    case False
    then have "f_div M ?num ?den \<noteq> NaN" using that by (intro f_div_finite_not_nan) auto
    then show ?thesis using False by (simp add: r)
  qed
  then show ?thesis using p r by blast
qed

text \<open>
  A constant image (standard deviation 0) against a two-spot template: every
  intermediate value is a small integer, the denominator is 0 and the score is 0.
\<close>

theorem zero_mean_normalized_correlation_zero_denominator:
  "np_multiply exact_model [Finite 5, Finite 5] [Finite 1, Finite 3] =
     Inr [Finite 5, Finite 15] \<and>
   match_denominator exact_model 4 (Finite 0) [Finite 1, Finite 3]
     (average_pattern_intensity exact_model 4 [Finite 1, Finite 3]) = Finite 0 \<and>
   zero_mean_normalized_correlation exact_model 4 (Finite 0) (Finite 5)
     [Finite 5, Finite 5] [Finite 1, Finite 3] = Inr (Finite 0)"
proof -
  have c: "length [Finite 5, Finite 5] = length [Finite 1, Finite 3] \<or>
           length [Finite 5, Finite 5] = 1 \<or> length [Finite 1, Finite 3] = 1"
    by simp
  have m: "np_multiply exact_model [Finite 5, Finite 5] [Finite 1, Finite 3] =
             Inr [Finite 5, Finite 15]"
    by (simp add: np_multiply_def exact_model_def f_round_def)
  have d: "match_denominator exact_model 4 (Finite 0) [Finite 1, Finite 3]
             (average_pattern_intensity exact_model 4 [Finite 1, Finite 3]) = Finite 0"
    by (simp add: average_pattern_intensity_def np_average_def match_denominator_def
        exact_model_def exact_rounding_def f_round_def f_sub_def)
  from zero_mean_normalized_correlation_guard [OF c, of exact_model 4 "Finite 0" "Finite 5"]
  obtain products where
    "zero_mean_normalized_correlation exact_model 4 (Finite 0) (Finite 5)
       [Finite 5, Finite 5] [Finite 1, Finite 3] =
     Inr (if match_denominator exact_model 4 (Finite 0) [Finite 1, Finite 3]
               (average_pattern_intensity exact_model 4 [Finite 1, Finite 3]) = Finite 0
          then Finite 0
          else f_div exact_model
                 (match_numerator exact_model 4 (Finite 5) products
                    (average_pattern_intensity exact_model 4 [Finite 1, Finite 3]))
                 (match_denominator exact_model 4 (Finite 0) [Finite 1, Finite 3]
                    (average_pattern_intensity exact_model 4 [Finite 1, Finite 3])))"
    by blast
  then have "zero_mean_normalized_correlation exact_model 4 (Finite 0) (Finite 5)
       [Finite 5, Finite 5] [Finite 1, Finite 3] = Inr (Finite 0)"
    by (simp add: d)
  then show ?thesis using m d by blast
qed

text \<open>
  The same template against an image of standard deviation 2: the numerator is 6, the
  denominator 8, and the score is their quotient.
\<close>

lemma zero_mean_normalized_correlation_quotient:
  "zero_mean_normalized_correlation exact_model 4 (Finite 2) (Finite 5)
     [Finite 5, Finite 7] [Finite 1, Finite 3] = Inr (Finite (3 / 4))"
  by (simp add: zero_mean_normalized_correlation_def np_multiply_def bind_err_def Let_def
      average_pattern_intensity_def np_average_def match_numerator_def match_denominator_def
      exact_model_def exact_rounding_def f_round_def f_sub_def)

text \<open>
  Claim C6 as stated fails for a template without intensities: the average of the empty
  array is \<open>0 / 0 = nan\<close>, the denominator is \<open>nan\<close> rather than 0 even for a constant
  image, and \<open>nan\<close> is returned.
\<close>

theorem zero_mean_normalized_correlation_counterexample:
  "zero_mean_normalized_correlation exact_model 4 (Finite 0) (Finite 5) [] [] = Inr NaN"
  by (simp add: zero_mean_normalized_correlation_def np_multiply_def bind_err_def Let_def
      average_pattern_intensity_def np_average_def match_numerator_def match_denominator_def
      exact_model_def exact_rounding_def f_round_def f_sub_def)

section \<open>Properties: the coarse-filter fraction\<close>

lemma keep_fraction_count:
  assumes "1 \<le> keep" "0 < n"
  shows "keep_fraction keep n = Inr (max ((real n - keep) / real n) 0)"
  using assms by (simp add: keep_fraction_def py_div_def bind_err_def)

lemma keep_fraction_proportion:
  assumes "0 < keep" "keep < 1"
  shows "keep_fraction keep n = Inr (1 - keep)"
  using assms by (simp add: keep_fraction_def)

lemma keep_fraction_invalid:
  assumes "keep \<le> 0"
  shows "keep_fraction keep n = Inl ValueError"
  using assms by (simp add: keep_fraction_def)

text \<open>
  Claim C7, as the code has it.  Over \<open>N > 0\<close> prepared templates: for \<open>keep \<ge> 1\<close> the
  fraction is \<open>max ((N - keep) / N) 0\<close>; for \<open>0 < keep < 1\<close> it is \<open>1 - keep\<close>; and that
  fraction is what the matching receives.  Any other value (\<open>keep \<le> 0\<close>) makes both
  matchers raise \<^verbatim>\<open>ValueError\<close> once the image and templates have been prepared, and
  before any integration or matching call.
\<close>

theorem keep_fraction_two_stage:
  assumes "prepare img simulations = Inr p" and "0 < length (theta_templates p)"
  shows "(1 \<le> keep \<longrightarrow>
            get_n_best_matches prepare mixed img simulations n_best keep =
              ([Prepare, Matching],
               mixed p (max ((real (length (theta_templates p)) - keep)
                             / real (length (theta_templates p))) 0) n_best) \<and>
            correlate_library_to_pattern_partial prepare filtered img simulations keep =
              ([Prepare, Matching],
               filtered p (max ((real (length (theta_templates p)) - keep)
                                / real (length (theta_templates p))) 0))) \<and>
         (0 < keep \<and> keep < 1 \<longrightarrow>
            get_n_best_matches prepare mixed img simulations n_best keep =
              ([Prepare, Matching], mixed p (1 - keep) n_best) \<and>
            correlate_library_to_pattern_partial prepare filtered img simulations keep =
              ([Prepare, Matching], filtered p (1 - keep))) \<and>
         (keep \<le> 0 \<longrightarrow>
            get_n_best_matches prepare mixed img simulations n_best keep =
              ([Prepare], Inl ValueError) \<and>
            correlate_library_to_pattern_partial prepare filtered img simulations keep =
              ([Prepare], Inl ValueError))"
proof (intro conjI impI)
  assume k: "1 \<le> keep"
  note f = keep_fraction_count [OF k assms(2)]
  show "get_n_best_matches prepare mixed img simulations n_best keep =
          ([Prepare, Matching],
           mixed p (max ((real (length (theta_templates p)) - keep)
                         / real (length (theta_templates p))) 0) n_best)"
    unfolding get_n_best_matches_def using f assms(1) by (simp add: two_stage_matcher_def)
  show "correlate_library_to_pattern_partial prepare filtered img simulations keep =
          ([Prepare, Matching],
           filtered p (max ((real (length (theta_templates p)) - keep)
                            / real (length (theta_templates p))) 0))"
    unfolding correlate_library_to_pattern_partial_def
    using f assms(1) by (simp add: two_stage_matcher_def)
next
  assume k: "0 < keep \<and> keep < 1"
  then have f: "keep_fraction keep (length (theta_templates p)) = Inr (1 - keep)"
    by (simp add: keep_fraction_proportion)
  show "get_n_best_matches prepare mixed img simulations n_best keep =
          ([Prepare, Matching], mixed p (1 - keep) n_best)"
    unfolding get_n_best_matches_def using f assms(1) by (simp add: two_stage_matcher_def)
  show "correlate_library_to_pattern_partial prepare filtered img simulations keep =
          ([Prepare, Matching], filtered p (1 - keep))"
    unfolding correlate_library_to_pattern_partial_def
    using f assms(1) by (simp add: two_stage_matcher_def)
next
  assume k: "keep \<le> 0"
  show "get_n_best_matches prepare mixed img simulations n_best keep =
          ([Prepare], Inl ValueError)"
    unfolding get_n_best_matches_def
    using k assms(1) by (simp add: two_stage_matcher_def keep_fraction_invalid)
  show "correlate_library_to_pattern_partial prepare filtered img simulations keep =
          ([Prepare], Inl ValueError)"
    unfolding correlate_library_to_pattern_partial_def
    using k assms(1) by (simp add: two_stage_matcher_def keep_fraction_invalid)
qed

text \<open>
  Four prepared templates: \<open>keep = 2\<close> gives the fraction \<open>1/2\<close>, \<open>keep = 1/4\<close> gives
  \<open>3/4\<close>, and \<open>keep = 0\<close> raises before the matching is called.
\<close>

theorem keep_fraction_two_stage_example:
  "get_n_best_matches
     (\<lambda>i s. Inr \<lparr>polar_image = [[1]], r_templates = [[1], [1], [1], [1]],
                 theta_templates = [[0], [1], [2], [3]],
                 intensities_templates = [[1], [1], [1], [1]]\<rparr>)
     (\<lambda>p f n. Inr f) () () 1 2 = ([Prepare, Matching], Inr (1/2)) \<and>
   get_n_best_matches
     (\<lambda>i s. Inr \<lparr>polar_image = [[1]], r_templates = [[1], [1], [1], [1]],
                 theta_templates = [[0], [1], [2], [3]],
                 intensities_templates = [[1], [1], [1], [1]]\<rparr>)
     (\<lambda>p f n. Inr f) () () 1 (1/4) = ([Prepare, Matching], Inr (3/4)) \<and>
   get_n_best_matches
     (\<lambda>i s. Inr \<lparr>polar_image = [[1]], r_templates = [[1], [1], [1], [1]],
                 theta_templates = [[0], [1], [2], [3]],
                 intensities_templates = [[1], [1], [1], [1]]\<rparr>)
     (\<lambda>p f n. Inr f) () () 1 0 = ([Prepare], Inl ValueError)"
proof -
  let ?p = "\<lparr>polar_image = [[1]], r_templates = [[1], [1], [1], [1]],
             theta_templates = [[0], [1], [2], [3]],
             intensities_templates = [[1], [1], [1], [1]]\<rparr>"
  let ?prep = "\<lambda>(i::unit) (s::unit). (Inr ?p :: py_error + prepared)"
  let ?mixed = "\<lambda>(p::prepared) (f::real) (n::nat). (Inr f :: py_error + real)"
  let ?filtered = "\<lambda>(p::prepared) (f::real). (Inr f :: py_error + real)"
  note t = keep_fraction_two_stage [where prepare = ?prep and img = "()" and simulations = "()"
      and p = ?p and mixed = ?mixed and n_best = 1 and filtered = ?filtered]
  show ?thesis
    using t [where keep = 2] t [where keep = "1/4"] t [where keep = 0]
    by simp
qed

text \<open>
  Claim C7 as stated fails at \<open>keep = 1\<close>, which its two ranges share: the first branch
  wins, and over four templates the fraction is \<open>3/4\<close>, not \<open>1 - keep = 0\<close>.
\<close>

theorem keep_fraction_counterexample:
  "(0::real) < 1 \<and> (1::real) \<le> 1 \<and> keep_fraction 1 4 = Inr (3/4) \<and>
   keep_fraction 1 4 \<noteq> Inr (1 - 1)"
  by (simp add: keep_fraction_def py_div_def bind_err_def)

section \<open>Properties: polar coordinates\<close>

lemma polar_radius_cos: "sqrt (x\<^sup>2 + y\<^sup>2) * cos (np_arctan2 y x) = x"
proof -
  consider "0 < x" | "x < 0" | "x = 0" by linarith
  then show ?thesis
  proof cases
    case 1
    have "x\<^sup>2 + y\<^sup>2 = x\<^sup>2 * (1 + (y / x)\<^sup>2)"
      using 1 by (simp add: field_simps power2_eq_square)
    then have "sqrt (x\<^sup>2 + y\<^sup>2) = x * sqrt (1 + (y / x)\<^sup>2)"
      using 1 by (simp add: real_sqrt_mult)
    moreover have "0 < sqrt (1 + (y / x)\<^sup>2)"
      by (metis add_pos_nonneg real_sqrt_gt_zero zero_le_power2 zero_less_one)
    ultimately show ?thesis using 1 by (simp add: np_arctan2_def cos_arctan)
  next
    case 2
    have "x\<^sup>2 + y\<^sup>2 = x\<^sup>2 * (1 + (y / x)\<^sup>2)"
      using 2 by (simp add: field_simps power2_eq_square)
    then have "sqrt (x\<^sup>2 + y\<^sup>2) = - x * sqrt (1 + (y / x)\<^sup>2)"
      using 2 by (simp add: real_sqrt_mult)
    moreover have "0 < sqrt (1 + (y / x)\<^sup>2)"
      by (metis add_pos_nonneg real_sqrt_gt_zero zero_le_power2 zero_less_one)
    ultimately show ?thesis using 2 by (simp add: np_arctan2_def cos_arctan)
  next
    case 3
    then show ?thesis by (simp add: np_arctan2_def)
  qed
qed

lemma polar_radius_sin: "sqrt (x\<^sup>2 + y\<^sup>2) * sin (np_arctan2 y x) = y"
proof -
  consider "0 < x" | "x < 0" | "x = 0" by linarith
  then show ?thesis
  proof cases
    case 1
    have "x\<^sup>2 + y\<^sup>2 = x\<^sup>2 * (1 + (y / x)\<^sup>2)"
      using 1 by (simp add: field_simps power2_eq_square)
    then have "sqrt (x\<^sup>2 + y\<^sup>2) = x * sqrt (1 + (y / x)\<^sup>2)"
      using 1 by (simp add: real_sqrt_mult)
    moreover have "0 < sqrt (1 + (y / x)\<^sup>2)"
      by (metis add_pos_nonneg real_sqrt_gt_zero zero_le_power2 zero_less_one)
    ultimately show ?thesis using 1 by (simp add: np_arctan2_def sin_arctan)
  next
    case 2
    have "x\<^sup>2 + y\<^sup>2 = x\<^sup>2 * (1 + (y / x)\<^sup>2)"
      using 2 by (simp add: field_simps power2_eq_square)
    then have "sqrt (x\<^sup>2 + y\<^sup>2) = - x * sqrt (1 + (y / x)\<^sup>2)"
      using 2 by (simp add: real_sqrt_mult)
    moreover have "0 < sqrt (1 + (y / x)\<^sup>2)"
      by (metis add_pos_nonneg real_sqrt_gt_zero zero_le_power2 zero_less_one)
    ultimately show ?thesis using 2 by (simp add: np_arctan2_def sin_arctan)
  next
    case 3
    then show ?thesis by (simp add: np_arctan2_def)
  qed
qed

lemma polar_row_round_trip:
  assumes "length v = 2"
  shows "bind_err (vectors_to_polar_row v) polar_to_cartesian_row = Inr v"
proof -
  obtain x y where v: "v = [x, y]"
    using assms by (metis (no_types, opaque_lifting) One_nat_def Suc_1 length_0_conv length_Suc_conv)
  show ?thesis
    by (simp add: v vectors_to_polar_row_def polar_to_cartesian_row_def bind_err_def
        polar_radius_cos polar_radius_sin)
qed

lemma sequence_err_round_trip:
  assumes "\<forall>v\<in>set vs. bind_err (f v) g = Inr v"
  shows "bind_err (sequence_err (map f vs)) (\<lambda>ps. sequence_err (map g ps)) = Inr vs"
  using assms
proof (induction vs)
  case Nil
  then show ?case by (simp add: bind_err_def)
next
  case (Cons v vs)
  then have hd: "bind_err (f v) g = Inr v"
    and tl: "bind_err (sequence_err (map f vs)) (\<lambda>ps. sequence_err (map g ps)) = Inr vs"
    by simp_all
  from hd obtain p where p: "f v = Inr p" "g p = Inr v"
    by (auto simp: bind_err_def split: sum.splits)
  from tl obtain ps where ps: "sequence_err (map f vs) = Inr ps" "sequence_err (map g ps) = Inr vs"
    by (auto simp: bind_err_def split: sum.splits)
  show ?case by (simp add: p ps bind_err_def)
qed

text \<open>
  Claim C9.  For every array of two-column vectors, converting to polar coordinates and
  back returns the array itself: over the reals the round trip is exact (no
  quantisation is applied), for zero vectors as well.
\<close>

theorem polar_round_trip:
  assumes "\<forall>v\<in>set vectors. length v = 2"
  shows "bind_err (vectors_to_polar vectors) polar_to_cartesian = Inr vectors"
  unfolding vectors_to_polar_def polar_to_cartesian_def
  using assms by (intro sequence_err_round_trip) (simp add: polar_row_round_trip)

theorem polar_round_trip_example:
  "bind_err (vectors_to_polar [[3, 4], [0, - 2]]) polar_to_cartesian = Inr [[3, 4], [0, - 2]]"
proof -
  have a: "\<forall>v\<in>set [[3, 4], [0, - 2 :: real]]. length v = 2" by simp
  show ?thesis using polar_round_trip [OF a] by simp
qed

section \<open>Properties: the rotation between two pairs of vectors\<close>

lemma cross3_self: "cross3 a a = (0, 0, 0)"
  by (cases a) (simp add: cross3_def)

lemma axangle2mat_zero: "axangle2mat axis 0 = identity3"
  by (cases axis) (simp add: axangle2mat_def identity3_def Let_def)

lemma matvec3_identity: "matvec3 identity3 v = v"
  by (cases v) (simp add: matvec3_def identity3_def dot3_def)

lemma matmul3_identity: "matmul3 identity3 identity3 = identity3"
  by (simp add: matmul3_def identity3_def dot3_def column3_def)

lemma norm3_zero: "norm3 (0, 0, 0) = 0"
  by (simp add: norm3_def dot3_def)

lemma normalize_or_zero_zero: "normalize_or_zero (0, 0, 0) = (0, 0, 0)"
  by (simp add: normalize_or_zero_def norm3_zero)

lemma angle_cartesian_row_self: "angle_cartesian_row a a = 0"
proof (cases "norm3 a * norm3 a = 0")
  case True
  then show ?thesis by (simp add: angle_cartesian_row_def)
next
  case False
  have "0 \<le> dot3 a a" by (cases a) (simp add: dot3_def)
  then have "norm3 a * norm3 a = dot3 a a" by (simp add: norm3_def)
  then have "dot3 a a / (norm3 a * norm3 a) = 1" using False by simp
  then show ?thesis using False by (simp add: angle_cartesian_row_def Let_def)
qed

lemma rotation_matrix_row_identity: "rotation_matrix_row a b a b = identity3"
proof -
  have common: "normalize_or_zero (cross3 (cross3 a b) (cross3 a b)) = (0, 0, 0)"
    by (simp add: cross3_self normalize_or_zero_zero)
  have valid: "isclose_zero (abs_sum3 (0, 0, 0))"
    by (simp add: isclose_zero_def abs_sum3_def)
  show ?thesis
    unfolding rotation_matrix_row_def Let_def common
    by (simp add: valid matvec3_identity angle_cartesian_row_self axangle2mat_zero
        matmul3_identity cross3_self)
qed

text \<open>
  Claim C8.  In the identity case, where every target row is the reference pair itself,
  \<^const>\<open>get_rotation_matrix_between_vectors\<close> returns the identity matrix for every
  row.  Over the reals this holds for every pair \<open>a\<close>, \<open>b\<close>, linearly independent or not,
  and for any positive number of rows.
\<close>

theorem rotation_identity_case:
  assumes "0 < n"
  shows "get_rotation_matrix_between_vectors a b (replicate n a) (replicate n b) =
         Inr (replicate n identity3)"
proof -
  have "map (\<lambda>(t1, t2). rotation_matrix_row a b t1 t2) (zip (replicate n a) (replicate n b)) =
        replicate n identity3"
    by (simp add: zip_replicate rotation_matrix_row_identity)
  then show ?thesis
    using assms by (simp add: get_rotation_matrix_between_vectors_def)
qed

theorem rotation_identity_case_example:
  "(0::nat) < 2 \<and>
   get_rotation_matrix_between_vectors (1, 0, 0) (0, 1, 0)
     [(1, 0, 0), (1, 0, 0)] [(0, 1, 0), (0, 1, 0)] =
   Inr [((1, 0, 0), (0, 1, 0), (0, 0, 1)), ((1, 0, 0), (0, 1, 0), (0, 0, 1))]"
  using rotation_identity_case [of 2 "(1, 0, 0)" "(0, 1, 0)"]
  by (simp add: numeral_2_eq_2 identity3_def)

section \<open>Properties: vector matching\<close>

lemma phases_loop_few_peaks:
  assumes "length peaks < 2"
  shows "phases_loop R c2p peaks mag_tol angle_tol index_error_tol n_peaks_to_index n_best
           phase_idx phases st = Inr st"
  using assms by (induction phases arbitrary: phase_idx) simp_all

lemma tolerance_mask_nonpositive:
  assumes "mag_tol \<le> 0"
  shows "filter id (tolerance_mask ms q1_len q2_len angle mag_tol angle_tol) = []"
proof -
  have "\<And>m0. \<not> \<bar>m0 - q1_len\<bar> < mag_tol" using assms by auto
  then show ?thesis by (auto simp: tolerance_mask_def filter_empty_conv)
qed

lemma pair_solutions_nonpositive:
  assumes "mag_tol \<le> 0"
  shows "pair_solutions phase phase_idx peaks mag_tol angle_tol index_error_tol pp = Inr ([], [])"
  by (simp add: pair_solutions_def Let_def tolerance_mask_nonpositive [OF assms])

lemma pairs_loop_nonpositive:
  assumes "mag_tol \<le> 0"
  shows "pairs_loop phase phase_idx peaks mag_tol angle_tol index_error_tol pps acc = Inr acc"
  by (induction pps arbitrary: acc) (simp_all add: pair_solutions_nonpositive [OF assms])

lemma store_phase_no_solutions:
  assumes "length done = phase_idx * n_best"
  shows "store_phase (done @ replicate (Suc k * n_best) None) phase_idx n_best [] =
         (done @ replicate n_best (Some dummy_solution)) @ replicate (k * n_best) None"
proof (cases "n_best = 0")
  case True
  then show ?thesis by (simp add: store_phase_def)
next
  case False
  have "drop (phase_idx * n_best + n_best) (done @ replicate (n_best + k * n_best) None) =
        replicate (k * n_best) (None :: OrientationResult option)"
    using assms by simp
  then show ?thesis
    using False assms by (simp add: store_phase_def assign_slice_def)
qed

lemma phases_loop_nonpositive:
  assumes "mag_tol \<le> 0" "2 \<le> length peaks" "length done = phase_idx * n_best"
  shows "phases_loop R c2p peaks mag_tol angle_tol index_error_tol n_peaks_to_index n_best
           phase_idx phases (done @ replicate (length phases * n_best) None, r) =
         Inr (done @ replicate (length phases * n_best) (Some dummy_solution), r)"
  using assms(3)
proof (induction phases arbitrary: phase_idx "done")
  case Nil
  then show ?case by simp
next
  case (Cons phase phases)
  have len: "length (done @ replicate n_best (Some dummy_solution)) = Suc phase_idx * n_best"
    using Cons.prems by simp
  have st: "store_phase (done @ replicate (Suc (length phases) * n_best) None) phase_idx n_best [] =
         (done @ replicate n_best (Some dummy_solution)) @ replicate (length phases * n_best) None"
    by (rule store_phase_no_solutions [OF Cons.prems])
  have "phases_loop R c2p peaks mag_tol angle_tol index_error_tol n_peaks_to_index n_best
           phase_idx (phase # phases)
           (done @ replicate (length (phase # phases) * n_best) None, r) =
        phases_loop R c2p peaks mag_tol angle_tol index_error_tol n_peaks_to_index n_best
           (Suc phase_idx) phases
           ((done @ replicate n_best (Some dummy_solution)) @
              replicate (length phases * n_best) None, r)"
    using assms(2) st by (simp add: pairs_loop_nonpositive [OF assms(1)] Let_def)
  also have "\<dots> = Inr ((done @ replicate n_best (Some dummy_solution)) @
                        replicate (length phases * n_best) (Some dummy_solution), r)"
    by (rule Cons.IH [OF len])
  also have "\<dots> = Inr (done @ replicate (length (phase # phases) * n_best) (Some dummy_solution), r)"
    by (simp add: replicate_add [symmetric])
  finally show ?case .
qed

lemma length_py_sorted: "length (py_sorted key reverse xs) = length xs"
  by (simp add: py_sorted_def)

lemma length_phase_block: "length (phase_block n_best solutions) = n_best"
  by (simp add: phase_block_def length_py_sorted)

lemma store_phase_block:
  assumes "length done = phase_idx * n_best"
  shows "store_phase (done @ replicate (Suc k * n_best) None) phase_idx n_best solutions =
         (done @ phase_block n_best solutions) @ replicate (k * n_best) None"
proof -
  define n where "n = min n_best (length solutions)"
  define S where "S = map Some (take n (py_sorted match_rate True solutions))"
  let ?tm = "done @ replicate (Suc k * n_best) (None :: OrientationResult option)"
  have n_le: "n \<le> n_best" by (simp add: n_def)
  have lS: "length S = n" by (simp add: S_def n_def length_py_sorted)
  have S: "S = map Some (take n_best (py_sorted match_rate True solutions))"
    by (simp add: S_def n_def min_def length_py_sorted)
  have pad: "n_best - n = n_best - length solutions" by (simp add: n_def)
  have blk: "phase_block n_best solutions = S @ replicate (n_best - n) (Some dummy_solution)"
    by (simp add: phase_block_def S pad)
  have top1: "(if 0 < n then assign_slice ?tm (phase_idx * n_best) S else ?tm) =
              done @ S @ replicate (Suc k * n_best - n) None"
  proof (cases "0 < n")
    case True
    have "drop (phase_idx * n_best + n) ?tm = replicate (Suc k * n_best - n) None"
      using assms by simp
    then show ?thesis using True assms lS by (simp add: assign_slice_def del: replicate.simps)
  next
    case False
    then have "S = []" using lS by simp
    then show ?thesis using False by simp
  qed
  have unfold: "store_phase ?tm phase_idx n_best solutions =
      (if n < n_best
       then assign_slice (done @ S @ replicate (Suc k * n_best - n) None)
              (phase_idx * n_best + n) (replicate (n_best - n) (Some dummy_solution))
       else done @ S @ replicate (Suc k * n_best - n) None)"
    unfolding store_phase_def Let_def n_def [symmetric] S_def [symmetric] top1 ..
  show ?thesis
  proof (cases "n < n_best")
    case True
    have d: "drop (phase_idx * n_best + n + (n_best - n))
            (done @ S @ replicate (Suc k * n_best - n) None) =
          replicate (k * n_best) (None :: OrientationResult option)"
      using assms True lS by simp
    have t: "take (phase_idx * n_best + n)
            (done @ S @ replicate (Suc k * n_best - n) None) = done @ S"
      using assms lS by simp
    have "assign_slice (done @ S @ replicate (Suc k * n_best - n) None)
             (phase_idx * n_best + n) (replicate (n_best - n) (Some dummy_solution)) =
          (done @ S @ replicate (n_best - n) (Some dummy_solution)) @ replicate (k * n_best) None"
      unfolding assign_slice_def using d t by (simp del: replicate.simps)
    then show ?thesis unfolding unfold blk using True by simp
  next
    case False
    then have "n = n_best" using n_le by simp
    then show ?thesis unfolding unfold blk by simp
  qed
qed

lemma phases_loop_blocks:
  assumes "2 \<le> length peaks" "length done = phase_idx * n_best"
    and "phases_loop R c2p peaks mag_tol angle_tol index_error_tol n_peaks_to_index n_best
           phase_idx phases (done @ replicate (length phases * n_best) None, r) = Inr (tm, r')"
  shows "\<exists>sols. length sols = length phases \<and>
                tm = done @ concat (map (phase_block n_best) sols)"
  using assms(2,3)
proof (induction phases arbitrary: phase_idx "done" r)
  case Nil
  then show ?case by simp
next
  case (Cons phase phases)
  let ?pl = "pairs_loop phase phase_idx peaks mag_tol angle_tol index_error_tol
               (combinations2 (choose_peak_ids R c2p peaks n_peaks_to_index)) ([], [])"
  obtain solutions rh where pl: "?pl = Inr (solutions, rh)"
    using Cons.prems(2) assms(1)
    by (cases ?pl) (auto simp: Let_def)
  have len: "length (done @ phase_block n_best solutions) = Suc phase_idx * n_best"
    using Cons.prems(1) by (simp add: length_phase_block)
  have st: "store_phase (done @ replicate (Suc (length phases) * n_best) None) phase_idx n_best
              solutions =
            (done @ phase_block n_best solutions) @ replicate (length phases * n_best) None"
    by (rule store_phase_block [OF Cons.prems(1)])
  have "phases_loop R c2p peaks mag_tol angle_tol index_error_tol n_peaks_to_index n_best
           (Suc phase_idx) phases
           ((done @ phase_block n_best solutions) @ replicate (length phases * n_best) None,
            r @ rh) = Inr (tm, r')"
    using Cons.prems(2) assms(1) pl st by (simp add: Let_def)
  from Cons.IH [OF len this]
  obtain sols where sols: "length sols = length phases"
    "tm = (done @ phase_block n_best solutions) @ concat (map (phase_block n_best) sols)"
    by blast
  have "length (solutions # sols) = length (phase # phases) \<and>
        tm = done @ concat (map (phase_block n_best) (solutions # sols))"
    using sols by simp
  then show ?case by blast
qed

lemma match_vectors_padded:
  assumes "2 \<le> length peaks"
    and "match_vectors R c2p peaks library mag_tol angle_tol index_error_tol n_peaks_to_index n_best =
           Inr (tm, r)"
  shows "\<exists>sols. length sols = length library \<and> tm = concat (map (phase_block n_best) sols)"
proof -
  have "phases_loop R c2p peaks mag_tol angle_tol index_error_tol n_peaks_to_index n_best
           0 library ([] @ replicate (length library * n_best) None, []) = Inr (tm, r)"
    using assms(2) by (simp add: match_vectors_def)
  from phases_loop_blocks [OF assms(1) _ this] show ?thesis by simp
qed

lemma ex_choose: "choose_peak_ids exact_rounding example_theta [(1, 0, 0), (0, 1, 0)] 2 = [0, 1]"
  by (simp add: choose_peak_ids_def np_argsort_def np_linspace_int_def Let_def numeral_2_eq_2
      example_theta_def exact_rounding_def)

text \<open>
  The padding invariant where it holds: with at least two peaks, whenever
  \<^const>\<open>match_vectors\<close> returns, every phase contributes its block of exactly
  \<open>n_best\<close> rows, in the order of the library.
\<close>

lemma match_vectors_rows:
  assumes "2 \<le> length peaks"
    and "match_vectors R c2p peaks library mag_tol angle_tol index_error_tol n_peaks_to_index n_best =
           Inr (tm, r)"
  shows "length tm = length library * n_best \<and> None \<notin> set tm"
proof -
  obtain sols where sols: "length sols = length library"
    "tm = concat (map (phase_block n_best) sols)"
    using match_vectors_padded [OF assms] by blast
  have "length tm = length library * n_best"
    unfolding sols(2) using sols(1)
    by (simp add: length_concat comp_def length_phase_block sum_list_triv)
  moreover have "None \<notin> set tm"
    unfolding sols(2) by (auto simp: phase_block_def)
  ultimately show ?thesis by simp
qed

text \<open>
  Claim C3 at fewer than two peaks.  Every phase is skipped by the \<^verbatim>\<open>continue\<close> that
  precedes the ranking and the padding, so the \<open>len(library) * n_best\<close> entries of
  the result are all still \<^verbatim>\<open>None\<close>: no sentinel entry is written.
\<close>

theorem match_vectors_few_peaks:
  assumes "length peaks < 2"
  shows "match_vectors R c2p peaks library mag_tol angle_tol index_error_tol n_peaks_to_index n_best =
         Inr (replicate (length library * n_best) None, [])"
  by (simp add: match_vectors_def phases_loop_few_peaks [OF assms])

theorem match_vectors_few_peaks_example:
  "length [(1, 0, 0) :: vec3] < 2 \<and>
   match_vectors exact_rounding example_theta [(1, 0, 0)] [example_phase] (1/100) (1/100) (1/10) 2 2 =
   Inr ([None, None], [])"
proof -
  have a: "length [(1, 0, 0) :: vec3] < 2" by simp
  show ?thesis
    using a match_vectors_few_peaks [OF a, of exact_rounding example_theta "[example_phase]" "1/100" "1/100" "1/10" 2 2]
    by (simp add: numeral_2_eq_2)
qed

text \<open>
  Claim C4, as the code has it.  The tolerance comparisons are strict, so for
  \<open>mag_tol = 0\<close> no library row passes the mask, whether or not its magnitudes equal
  those of the peaks: with at least two peaks \<^const>\<open>match_vectors\<close> returns no
  candidate at all, and every entry is the dummy entry.
\<close>

theorem match_vectors_zero_mag_tol:
  assumes "mag_tol = 0" "2 \<le> length peaks"
  shows "match_vectors R c2p peaks library mag_tol angle_tol index_error_tol n_peaks_to_index n_best =
         Inr (replicate (length library * n_best) (Some dummy_solution), [])"
proof -
  have "mag_tol \<le> 0" using assms(1) by simp
  from phases_loop_nonpositive [OF this assms(2), of "[]" 0 n_best]
  show ?thesis by (simp add: match_vectors_def)
qed

theorem match_vectors_zero_mag_tol_example:
  "(0::real) = 0 \<and> 2 \<le> length [(1, 0, 0) :: vec3, (0, 1, 0)] \<and>
   match_vectors exact_rounding example_theta [(1, 0, 0), (0, 1, 0)] [example_phase, example_phase]
     0 (1/100) (1/10) 2 1 =
   Inr ([Some dummy_solution, Some dummy_solution], [])"
proof -
  have a: "(0::real) = 0" by simp
  have b: "2 \<le> length [(1, 0, 0) :: vec3, (0, 1, 0)]" by simp
  show ?thesis
    using match_vectors_zero_mag_tol [OF a b, of exact_rounding example_theta "[example_phase, example_phase]"
        "1/100" "1/10" 2 1]
    by (simp add: numeral_2_eq_2)
qed

text \<open>
  Claim C4 as stated fails where an exact equality exists.  The two peaks have
  magnitudes 1 and 1 at a right angle, exactly the library row; a tolerance of \<open>1/100\<close>
  finds that candidate (match rate 1, error 0), but \<open>mag_tol = 0\<close> returns the dummy entry
  alone.  And where no equality can exist, with a single peak, the result is not the
  dummy entry either: the row is left \<^verbatim>\<open>None\<close>.
\<close>

theorem match_vectors_zero_mag_tol_counterexample:
  "vp_measurements example_phase = [(norm3 (1, 0, 0), norm3 (0, 1, 0), pi / 2)] \<and>
   match_vectors exact_rounding example_theta [(1, 0, 0), (0, 1, 0)] [example_phase] (1/100) (1/100) (1/10) 2 1 =
   Inr ([Some \<lparr>phase_index = 0, rotation_matrix = identity3, match_rate = 1,
               error_hkls = [(0, 0, 0), (0, 0, 0)], total_error = 0, scale = 1,
               center_x = 0, center_y = 0\<rparr>], [[(1, 0, 0), (0, 1, 0)]]) \<and>
   match_vectors exact_rounding example_theta [(1, 0, 0), (0, 1, 0)] [example_phase] 0 (1/100) (1/10) 2 1 =
   Inr ([Some dummy_solution], []) \<and>
   match_vectors exact_rounding example_theta [(1, 0, 0)] [example_phase] 0 (1/100) (1/10) 2 1 =
   Inr ([None], [])"
proof (intro conjI)
  show "vp_measurements example_phase = [(norm3 (1, 0, 0), norm3 (0, 1, 0), pi / 2)]"
    by (simp add: example_phase_def norm3_def dot3_def)
  show "match_vectors exact_rounding example_theta [(1, 0, 0), (0, 1, 0)] [example_phase] (1/100) (1/100) (1/10) 2 1 =
   Inr ([Some \<lparr>phase_index = 0, rotation_matrix = identity3, match_rate = 1,
               error_hkls = [(0, 0, 0), (0, 0, 0)], total_error = 0, scale = 1,
               center_x = 0, center_y = 0\<rparr>], [[(1, 0, 0), (0, 1, 0)]])"
    apply (simp add: match_vectors_def ex_choose Let_def)
    apply (simp add: pair_solutions_def norm3_def dot3_def get_angle_cartesian_def Let_def
      tolerance_mask_def example_phase_def select_mask_def bind_err_def
      get_rotation_matrix_between_vectors_def rotation_matrix_row_identity
      index_peaks_def matvec3_def identity3_def rint3_def np_rint_def abs_diff3_def max3_def
      sum3_def to_solution_def store_phase_def assign_slice_def py_sorted_def)
    done
  show "match_vectors exact_rounding example_theta [(1, 0, 0), (0, 1, 0)] [example_phase] 0 (1/100) (1/10) 2 1 =
   Inr ([Some dummy_solution], [])"
    apply (simp add: match_vectors_def ex_choose Let_def)
    apply (simp add: pair_solutions_def norm3_def dot3_def get_angle_cartesian_def Let_def
      tolerance_mask_def example_phase_def store_phase_def assign_slice_def)
    done
  show "match_vectors exact_rounding example_theta [(1, 0, 0)] [example_phase] 0 (1/100) (1/10) 2 1 =
   Inr ([None], [])"
    by (simp add: match_vectors_def phases_loop_few_peaks)
qed

section \<open>Properties: template matching against a library\<close>

lemma update_saved_length:
  assumes "update_saved or_local corr_local saved = Inr saved'"
  shows "length (snd saved') = length (snd saved)"
  using assms
  by (auto simp: update_saved_def bind_err_def split: sum.splits if_splits)

lemma ranked_rows_shape:
  "length (ranked_rows phase_idx saved) = length (snd saved) \<and>
   (\<forall>r\<in>set (ranked_rows phase_idx saved). length r = 3)"
  by (auto simp: ranked_rows_def)

lemma templates_loop_shape:
  assumes "templates_loop M img method nb_pixels image_std avg phase_idx ts st = Inr st'"
    and "length (snd (fst st)) = n" "length (snd st) = n" "\<forall>r\<in>set (snd st). length r = 3"
  shows "length (snd st') = n \<and> (\<forall>r\<in>set (snd st'). length r = 3)"
  using assms
proof (induction ts arbitrary: st)
  case Nil
  then show ?case by simp
next
  case (Cons t ts)
  obtain or_local px_local int_local pn_local where t: "t = (or_local, px_local, int_local, pn_local)"
    by (cases t) auto
  from Cons.prems(1) obtain ii cl saved where
    saved: "update_saved or_local cl (fst st) = Inr saved"
    and rest: "templates_loop M img method nb_pixels image_std avg phase_idx ts
                 (saved, ranked_rows phase_idx saved) = Inr st'"
    by (auto simp: t bind_err_def split: sum.splits)
  have len: "length (snd saved) = n"
    using update_saved_length [OF saved] Cons.prems(2) by simp
  show ?case
  proof (rule Cons.IH [OF rest])
    show "length (snd (fst (saved, ranked_rows phase_idx saved))) = n" using len by simp
    show "length (snd (saved, ranked_rows phase_idx saved)) = n"
      using len ranked_rows_shape [of phase_idx saved] by simp
    show "\<forall>r\<in>set (snd (saved, ranked_rows phase_idx saved)). length r = 3"
      using ranked_rows_shape [of phase_idx saved] by simp
  qed
qed

lemma phase_rows_shape:
  assumes "phase_rows M uninitialized img method nb_pixels image_std avg n_largest phase_idx entry =
             Inr rows"
  shows "length rows = n_largest \<and> (\<forall>r\<in>set rows. length r = 3)"
proof -
  let ?ts = "zip (le_orientations entry)
              (zip (le_pixel_coords entry) (zip (le_intensities entry) (le_pattern_norms entry)))"
  let ?st = "((map uninitialized [0..<n_largest], replicate n_largest (Finite 0)),
              replicate n_largest [None, None, None :: cell option])"
  from assms obtain st' where
    st': "templates_loop M img method nb_pixels image_std avg phase_idx ?ts ?st = Inr st'"
    and rows: "rows = snd st'"
    by (auto simp: phase_rows_def Let_def bind_err_def split: sum.splits)
  have "length (snd st') = n_largest \<and> (\<forall>r\<in>set (snd st'). length r = 3)"
    by (rule templates_loop_shape [OF st']) simp_all
  then show ?thesis using rows by simp
qed

lemma library_loop_shape:
  assumes "library_loop M uninitialized img method nb_pixels image_std avg n_largest phase_idx es =
             Inr tops"
  shows "length (concat tops) = length es * n_largest \<and> (\<forall>r\<in>set (concat tops). length r = 3)"
  using assms
proof (induction es arbitrary: phase_idx tops)
  case Nil
  then show ?case by simp
next
  case (Cons e es)
  from Cons.prems obtain rows rest where
    rows: "phase_rows M uninitialized img method nb_pixels image_std avg n_largest phase_idx e =
             Inr rows"
    and rest: "library_loop M uninitialized img method nb_pixels image_std avg n_largest
                 (Suc phase_idx) es = Inr rest"
    and tops: "tops = rows # rest"
    by (auto simp: bind_err_def split: sum.splits)
  note a = phase_rows_shape [OF rows]
  note b = Cons.IH [OF rest]
  show ?case using a b by (auto simp: tops)
qed

lemma concat_replicate_replicate:
  "concat (replicate m (replicate n x)) = replicate (m * n) x"
  by (induction m) (simp_all add: replicate_add)

lemma py_index_in_range:
  assumes "index_in_range (length xs) i"
  shows "\<exists>v. py_index xs i = Inr v \<and> v = xs ! nat (if i < 0 then int (length xs) + i else i)"
  using assms by (auto simp: py_index_def index_in_range_def)

lemma image_get_in_image:
  assumes "pixel_in_image img px"
  shows "\<exists>v. image_get img px = Inr v"
proof -
  from assms have a: "index_in_range (length img) (snd px)"
    and b: "index_in_range
       (length (img ! nat (if snd px < 0 then int (length img) + snd px else snd px))) (fst px)"
    by (simp_all add: pixel_in_image_def)
  from py_index_in_range [OF a] obtain row where
    row: "py_index img (snd px) = Inr row"
      "row = img ! nat (if snd px < 0 then int (length img) + snd px else snd px)"
    by blast
  from b row(2) have "index_in_range (length row) (fst px)" by simp
  from py_index_in_range [OF this] obtain v where "py_index row (fst px) = Inr v" by blast
  then show ?thesis using row(1) by (simp add: image_get_def bind_err_def)
qed

lemma sequence_err_all_Inr:
  assumes "\<forall>x\<in>set xs. \<exists>v. f x = Inr v"
  shows "\<exists>vs. sequence_err (map f xs) = Inr vs \<and> length vs = length xs"
  using assms
proof (induction xs)
  case Nil
  then show ?case by simp
next
  case (Cons x xs)
  then obtain v vs where "f x = Inr v" "sequence_err (map f xs) = Inr vs" "length vs = length xs"
    by auto
  then show ?case by simp
qed

lemma template_score_total:
  assumes "supported_method method" "length image_intensities = length int_local"
  shows "\<exists>c. template_score M method nb_pixels image_std avg image_intensities int_local
               pn_local = Inr c"
proof -
  have m: "np_multiply M (map Finite image_intensities) (map Finite int_local) =
        Inr (map (\<lambda>(x, y). f_mul M x y)
               (zip (map Finite image_intensities) (map Finite int_local)))"
    using assms(2) by (simp add: np_multiply_def)
  show ?thesis
  proof (cases "method = ''zero_mean_normalized_correlation''")
    case True
    then show ?thesis
      by (simp add: template_score_def zero_mean_normalized_correlation_def m bind_err_def
          Let_def)
  next
    case False
    then have "method = ''fast_correlation''" using assms(1) by (simp add: supported_method_def)
    then show ?thesis by (simp add: template_score_def fast_correlation_def m bind_err_def)
  qed
qed

lemma update_saved_total:
  assumes "snd saved \<noteq> []"
  shows "\<exists>saved'. update_saved or_local corr_local saved = Inr saved' \<and>
                   length (snd saved') = length (snd saved)"
proof -
  obtain k where k: "np_argmin (snd saved) = Inr k"
    using assms by (cases "snd saved") (simp_all add: np_argmin_def)
  show ?thesis
  proof (cases "np_greater corr_local (snd saved ! k)")
    case True
    then show ?thesis by (simp add: update_saved_def k bind_err_def)
  next
    case False
    then show ?thesis by (simp add: update_saved_def k bind_err_def)
  qed
qed

lemma templates_loop_total:
  assumes "supported_method method" "list_all (template_well_formed img) ts" "snd (fst st) \<noteq> []"
  shows "\<exists>st'. templates_loop M img method nb_pixels image_std avg phase_idx ts st = Inr st'"
  using assms(2,3)
proof (induction ts arbitrary: st)
  case Nil
  then show ?case by simp
next
  case (Cons t ts)
  obtain or_local px_local int_local pn_local where t: "t = (or_local, px_local, int_local, pn_local)"
    by (cases t) auto
  have "template_well_formed img t" and rest: "list_all (template_well_formed img) ts"
    using Cons.prems(1) by simp_all
  then have wf: "list_all (pixel_in_image img) px_local" "length px_local = length int_local"
    by (simp_all add: t template_well_formed_def)
  have "\<forall>p\<in>set px_local. \<exists>v. image_get img p = Inr v"
    using wf(1) by (auto simp: list_all_iff intro: image_get_in_image)
  from sequence_err_all_Inr [OF this] obtain ii where
    ii: "sequence_err (map (image_get img) px_local) = Inr ii" "length ii = length px_local"
    by blast
  have "length ii = length int_local" using ii(2) wf(2) by simp
  from template_score_total [OF assms(1) this, of M nb_pixels image_std avg pn_local]
  obtain c where
    c: "template_score M method nb_pixels image_std avg ii int_local pn_local = Inr c"
    by blast
  from update_saved_total [OF Cons.prems(2)] obtain saved where
    saved: "update_saved or_local c (fst st) = Inr saved"
      "length (snd saved) = length (snd (fst st))"
    by blast
  have ne: "snd (fst (saved, ranked_rows phase_idx saved)) \<noteq> []"
    using saved(2) Cons.prems(2) by auto
  from Cons.IH [OF rest ne] obtain st' where
    "templates_loop M img method nb_pixels image_std avg phase_idx ts
       (saved, ranked_rows phase_idx saved) = Inr st'" by blast
  then show ?case by (simp add: t ii c saved bind_err_def)
qed

lemma phase_rows_total:
  assumes "supported_method method" "entry_well_formed img entry" "0 < n_largest"
  shows "\<exists>rows. phase_rows M uninitialized img method nb_pixels image_std avg n_largest
                  phase_idx entry = Inr rows"
proof -
  let ?ts = "zip (le_orientations entry)
              (zip (le_pixel_coords entry) (zip (le_intensities entry) (le_pattern_norms entry)))"
  let ?st = "((map uninitialized [0..<n_largest], replicate n_largest (Finite 0)),
              replicate n_largest [None, None, None :: cell option])"
  have wf: "list_all (template_well_formed img) ?ts"
    using assms(2) by (simp add: entry_well_formed_def)
  have ne: "snd (fst ?st) \<noteq> []" using assms(3) by simp
  from templates_loop_total [OF assms(1) wf ne] obtain st' where
    "templates_loop M img method nb_pixels image_std avg phase_idx ?ts ?st = Inr st'" by blast
  then show ?thesis by (simp add: phase_rows_def Let_def bind_err_def)
qed

lemma library_loop_total:
  assumes "supported_method method" "list_all (entry_well_formed img) es" "0 < n_largest"
  shows "\<exists>tops. library_loop M uninitialized img method nb_pixels image_std avg n_largest
                  phase_idx es = Inr tops"
  using assms(2)
proof (induction es arbitrary: phase_idx)
  case Nil
  then show ?case by simp
next
  case (Cons e es)
  then have e: "entry_well_formed img e" and es: "list_all (entry_well_formed img) es"
    by simp_all
  from phase_rows_total [OF assms(1) e assms(3)] obtain rows where
    "phase_rows M uninitialized img method nb_pixels image_std avg n_largest phase_idx e = Inr rows"
    by blast
  moreover from Cons.IH [OF es] obtain rest where
    "library_loop M uninitialized img method nb_pixels image_std avg n_largest (Suc phase_idx) es =
       Inr rest" by blast
  ultimately show ?case by (simp add: bind_err_def)
qed

lemma correlate_library_total:
  assumes "supported_method method" "list_all (entry_well_formed img) library" "0 < n_largest"
  shows "\<exists>rows. correlate_library M uninitialized img library n_largest method msk = Inr rows"
proof (cases "msk = 1")
  case True
  from library_loop_total [OF assms] obtain tops where
    "library_loop M uninitialized img method
         (length img * (if img = [] then 0 else length (hd img)))
         (np_linalg_norm M
            (map (\<lambda>p. f_sub M p (np_average M (map Finite (concat img))))
               (map Finite (concat img))))
         (np_average M (map Finite (concat img)))
         n_largest 0 library = Inr tops" by blast
  then show ?thesis using True by (simp add: correlate_library_def Let_def bind_err_def)
next
  case False
  then show ?thesis by (simp add: correlate_library_def Let_def)
qed

lemma correlate_library_masked:
  assumes "msk \<noteq> 1"
  shows "correlate_library M uninitialized img library n_largest method msk =
           Inr (replicate (length library * n_largest) [None, None, None])"
  using assms by (simp add: correlate_library_def Let_def concat_replicate_replicate)

lemma correlate_library_returned_shape:
  assumes r: "correlate_library M uninitialized img library n_largest method msk = Inr rows"
  shows "length rows = length library * n_largest \<and> (\<forall>r\<in>set rows. length r = 3)"
proof (cases "msk = 1")
  case True
  with r obtain tops where
    "library_loop M uninitialized img method
         (length img * (if img = [] then 0 else length (hd img)))
         (np_linalg_norm M
            (map (\<lambda>p. f_sub M p (np_average M (map Finite (concat img))))
               (map Finite (concat img))))
         (np_average M (map Finite (concat img)))
         n_largest 0 library = Inr tops" and "rows = concat tops"
    by (auto simp: correlate_library_def Let_def bind_err_def split: sum.splits)
  then show ?thesis using library_loop_shape by blast
next
  case False
  then have "rows = replicate (length library * n_largest) [None, None, None]"
    using r correlate_library_masked by simp
  then show ?thesis by simp
qed

text \<open>
  Claim C10, as the code has it.  Any array that \<^const>\<open>correlate_library\<close> returns has
  \<open>len(library) * n_largest\<close> rows of 3 entries; it does return one when \<open>n_largest\<close> is
  positive, the method is one of the two it scores and every template is well formed
  for the image; and when the mask is not 1 it returns, without raising and whatever
  the templates and the method are, that array with every entry \<^verbatim>\<open>None\<close>.
\<close>

theorem correlate_library_shape:
  "(correlate_library M uninitialized img library n_largest method msk = Inr rows \<longrightarrow>
      length rows = length library * n_largest \<and> (\<forall>r\<in>set rows. length r = 3)) \<and>
   (supported_method method \<and> list_all (entry_well_formed img) library \<and> 0 < n_largest \<longrightarrow>
      (\<exists>rows'. correlate_library M uninitialized img library n_largest method msk = Inr rows')) \<and>
   (msk \<noteq> 1 \<longrightarrow>
      correlate_library M uninitialized img library n_largest method msk =
        Inr (replicate (length library * n_largest) [None, None, None]))"
  using correlate_library_returned_shape [of M uninitialized img library n_largest "method" msk rows]
    correlate_library_total [of "method" img library n_largest M uninitialized msk]
    correlate_library_masked [of msk M uninitialized img library n_largest "method"]
  by blast

text \<open>
  With the mask set, two templates fill the two rows of a phase by descending score;
  with the mask unset the four rows of two phases stay \<^verbatim>\<open>None\<close>.
\<close>

theorem correlate_library_shape_example:
  "correlate_library exact_model stale_memory [[5, 6]] [example_entry] 2 ''fast_correlation'' 1 =
     Inr [[Some (PhaseIndex 0), Some (OrientationCell (10, 20, 30)),
           Some (CorrelationCell (Finite 6))],
          [Some (PhaseIndex 0), Some (OrientationCell (0, 0, 0)),
           Some (CorrelationCell (Finite 5))]] \<and>
   length [[Some (PhaseIndex 0), Some (OrientationCell (10, 20, 30)),
            Some (CorrelationCell (Finite 6))],
           [Some (PhaseIndex 0), Some (OrientationCell (0, 0, 0)),
            Some (CorrelationCell (Finite 5))]] = length [example_entry] * 2 \<and>
   correlate_library exact_model stale_memory [[5, 6]] [example_entry, example_entry] 2
       ''fast_correlation'' 0 =
     Inr [[None, None, None], [None, None, None], [None, None, None], [None, None, None]]"
proof -
  let ?rows = "[[Some (PhaseIndex 0), Some (OrientationCell (10, 20, 30)),
                 Some (CorrelationCell (Finite 6))],
                [Some (PhaseIndex 0), Some (OrientationCell (0, 0, 0)),
                 Some (CorrelationCell (Finite 5))]]"
  have wf: "supported_method ''fast_correlation'' \<and>
            list_all (entry_well_formed [[5, 6]]) [example_entry] \<and> (0::nat) < 2"
    by (simp add: supported_method_def entry_well_formed_def template_well_formed_def
        pixel_in_image_def index_in_range_def example_entry_def)
  note t = correlate_library_shape [of exact_model stale_memory "[[5, 6]]" "[example_entry]" 2
        "''fast_correlation''" 1 ?rows]
  from t wf obtain rows' where
    "correlate_library exact_model stale_memory [[5, 6]] [example_entry] 2 ''fast_correlation'' 1 =
       Inr rows'" by blast
  have run: "correlate_library exact_model stale_memory [[5, 6]] [example_entry] 2
               ''fast_correlation'' 1 = Inr ?rows"
    by (simp add: correlate_library_def Let_def example_entry_def phase_rows_def bind_err_def
      image_get_def py_index_def template_score_def fast_correlation_def np_multiply_def
      update_saved_def np_argmin_def np_greater_def ranked_rows_def
      numeral_2_eq_2 stale_memory_def exact_model_def exact_rounding_def f_round_def)
  have shape: "length ?rows = length [example_entry] * 2"
    using run t by blast
  have masked: "correlate_library exact_model stale_memory [[5, 6]] [example_entry, example_entry] 2
       ''fast_correlation'' 0 =
     Inr [[None, None, None], [None, None, None], [None, None, None], [None, None, None]]"
    using correlate_library_shape [of exact_model stale_memory "[[5, 6]]"
        "[example_entry, example_entry]" 2 "''fast_correlation''" 0 "[]"]
    by (simp add: numeral_eq_Suc)
  show ?thesis using run shape masked by blast
qed

text \<open>
  Claim C10 as stated fails with the mask set when the scoring raises, and then nothing
  is returned: a template pixel outside the image is an \<^verbatim>\<open>IndexError\<close>.
\<close>

theorem correlate_library_counterexample:
  "correlate_library exact_model stale_memory [[5]] [outside_entry] 1 ''fast_correlation'' 1 =
   Inl IndexError"
  by (simp add: correlate_library_def Let_def outside_entry_def phase_rows_def bind_err_def
      image_get_def py_index_def)

end
